theory Spec2Isabelle
  imports Main
begin

section \<open>Python values, exceptions and the interpreter state\<close>

text \<open>
  The tutorial module \<^verbatim>\<open>code/python_tutorial.py\<close> defines the classes
  \<^verbatim>\<open>Square\<close>, \<^verbatim>\<open>Multiplier\<close>, \<^verbatim>\<open>LoggingTape\<close>, \<^verbatim>\<open>Logger\<close> and \<^verbatim>\<open>Car\<close>.
  Exceptions are values of type \<open>error\<close>; a computation takes the interpreter state and
  returns either an exception or a value, together with the state it leaves behind
  (a raised exception does not undo earlier mutations).
\<close>

datatype error =
    TypeError string
  | AttributeError string string
  | AssertionError
  | Exception string

text \<open>The values a tape variable or the class attribute can hold: \<^verbatim>\<open>None\<close> or a
  reference to a \<^verbatim>\<open>LoggingTape\<close> instance.\<close>

datatype pyval = PyNone | TapeRef nat

text \<open>Positional arguments of the constructor and call expressions of the local tests.\<close>

datatype pyarg = PyStr string | PyInt int

text \<open>The value of the instance attribute \<^verbatim>\<open>logs\<close>: \<^verbatim>\<open>__init__\<close> stores the
  literal \<^verbatim>\<open>...\<close> (the \<^verbatim>\<open>Ellipsis\<close> object); \<^verbatim>\<open>print_logs\<close> iterates over
  whatever is stored, so a list of entries is the other shape the attribute can have.\<close>

datatype logs_val = Ellipsis | LogList "string list"

record state =
  logs_of :: "nat \<rightharpoonup> logs_val"
  next_ref :: nat
  logging_tape :: pyval
  stdout :: "string list"

type_synonym 'a py = "state \<Rightarrow> (error + 'a) \<times> state"

text \<open>Returning, raising and sequencing, for any type of state and of exception (the
  setup script below has its own).\<close>

definition return_py :: "'a \<Rightarrow> 's \<Rightarrow> ('e + 'a) \<times> 's" where
  "return_py x s = (Inr x, s)"

definition raise_py :: "'e \<Rightarrow> 's \<Rightarrow> ('e + 'a) \<times> 's" where
  "raise_py e s = (Inl e, s)"

definition bind_py ::
  "('s \<Rightarrow> ('e + 'a) \<times> 's) \<Rightarrow> ('a \<Rightarrow> 's \<Rightarrow> ('e + 'b) \<times> 's) \<Rightarrow> 's \<Rightarrow> ('e + 'b) \<times> 's" where
  "bind_py m f s = (case m s of (Inl e, s') \<Rightarrow> (Inl e, s') | (Inr x, s') \<Rightarrow> f x s')"

text \<open>Module load: \<^verbatim>\<open>Logger.logging_tape: LoggingTape | None = None\<close>, no objects, no output.\<close>

definition init_state :: state where
  "init_state = \<lparr>logs_of = Map.empty, next_ref = 0, logging_tape = PyNone, stdout = []\<rparr>"

text \<open>Truth value of an object, as \<^verbatim>\<open>with\<close> tests the result of \<^verbatim>\<open>__exit__\<close>.\<close>

fun truthy :: "pyval \<Rightarrow> bool" where
  "truthy PyNone = False"
| "truthy (TapeRef r) = True"

subsection \<open>Decimal text of integers, as an f-string renders them\<close>

fun str_nat :: "nat \<Rightarrow> string" where
  "str_nat n = (if n < 10 then [''0123456789'' ! n]
                else str_nat (n div 10) @ [''0123456789'' ! (n mod 10)])"

declare str_nat.simps [simp del]

definition str_int :: "int \<Rightarrow> string" where
  "str_int i = (if i < 0 then CHR ''-'' # str_nat (nat (- i)) else str_nat (nat i))"

section \<open>The classes of the tutorial\<close>

subsection \<open>Square and Multiplier\<close>

text \<open>\<^verbatim>\<open>def __init__(self): pass\<close>: the call \<^verbatim>\<open>Square(a1, ..., an)\<close> binds the new
  object to \<^verbatim>\<open>self\<close> and has no parameter for anything else. The number the message
  gives counts \<^verbatim>\<open>self\<close>, so it is at least 2 and the verb is always \<^verbatim>\<open>were\<close>.\<close>

datatype square = SquareObj

definition Square_init :: "pyarg list \<Rightarrow> square py" where
  "Square_init args =
     (if args = [] then return_py SquareObj
      else raise_py (TypeError (''Square.__init__() takes 1 positional argument but ''
                       @ str_nat (Suc (length args)) @ '' were given'')))"

text \<open>A \<^verbatim>\<open>Square\<close> instance has no attribute at all: nothing is ever assigned to it.\<close>

definition Square_getattr :: "square \<Rightarrow> string \<Rightarrow> pyarg py" where
  "Square_getattr sq name = raise_py (AttributeError ''Square'' name)"

datatype multiplier = MultiplierObj

definition Multiplier_init :: "multiplier py" where
  "Multiplier_init = return_py MultiplierObj"

text \<open>\<^verbatim>\<open>def __call__(self): pass\<close>\<close>

definition Multiplier_call :: "multiplier \<Rightarrow> pyarg list \<Rightarrow> pyval py" where
  "Multiplier_call self args =
     (if args = [] then return_py PyNone
      else raise_py (TypeError (''Multiplier.__call__() takes 1 positional argument but ''
                       @ str_nat (Suc (length args)) @ '' were given'')))"

subsection \<open>LoggingTape\<close>

text \<open>\<^verbatim>\<open>self.logs = ...\<close>\<close>

definition LoggingTape_init :: "nat \<Rightarrow> pyval py" where
  "LoggingTape_init self s = (Inr PyNone, s\<lparr>logs_of := (logs_of s)(self \<mapsto> Ellipsis)\<rparr>)"

text \<open>The expression \<^verbatim>\<open>LoggingTape()\<close>: a fresh object, initialised by \<^verbatim>\<open>__init__\<close>.\<close>

definition LoggingTape_new :: "nat py" where
  "LoggingTape_new s =
     (let self = next_ref s in
      bind_py (LoggingTape_init self) (\<lambda>_. return_py self) (s\<lparr>next_ref := Suc self\<rparr>))"

text \<open>\<^verbatim>\<open>def __enter__(self): pass\<close>\<close>

definition LoggingTape_enter :: "nat \<Rightarrow> pyval py" where
  "LoggingTape_enter self = return_py PyNone"

text \<open>\<^verbatim>\<open>def __exit__(self, *args): pass\<close>; the argument is the exception in flight, if any.\<close>

definition LoggingTape_exit :: "nat \<Rightarrow> error option \<Rightarrow> pyval py" where
  "LoggingTape_exit self args = return_py PyNone"

text \<open>\<^verbatim>\<open>def add_to_log(self, new_log): pass\<close>\<close>

definition LoggingTape_add_to_log :: "nat \<Rightarrow> string \<Rightarrow> pyval py" where
  "LoggingTape_add_to_log self new_log = return_py PyNone"

text \<open>\<^verbatim>\<open>print(log)\<close> writes one line to standard output.\<close>

definition print :: "string \<Rightarrow> unit py" where
  "print line s = (Inr (), s\<lparr>stdout := stdout s @ [line]\<rparr>)"

fun for_print :: "string list \<Rightarrow> unit py" where
  "for_print [] = return_py ()"
| "for_print (log # rest) = bind_py (print log) (\<lambda>_. for_print rest)"

text \<open>\<^verbatim>\<open>for log in self.logs: print(log)\<close>. An instance that has no \<^verbatim>\<open>logs\<close>
  attribute raises AttributeError at the attribute access; \<^verbatim>\<open>Ellipsis\<close> is not
  iterable, so the \<^verbatim>\<open>for\<close> statement raises TypeError before printing anything.\<close>

definition LoggingTape_print_logs :: "nat \<Rightarrow> pyval py" where
  "LoggingTape_print_logs self s =
     (case logs_of s self of
        None \<Rightarrow> raise_py (AttributeError ''LoggingTape'' ''logs'') s
      | Some Ellipsis \<Rightarrow> raise_py (TypeError '''ellipsis' object is not iterable'') s
      | Some (LogList entries) \<Rightarrow> bind_py (for_print entries) (\<lambda>_. return_py PyNone) s)"

text \<open>Method calls through a variable: on \<^verbatim>\<open>None\<close> the attribute lookup fails.\<close>

definition call_add_to_log :: "pyval \<Rightarrow> string \<Rightarrow> pyval py" where
  "call_add_to_log obj new_log =
     (case obj of
        PyNone \<Rightarrow> raise_py (AttributeError ''NoneType'' ''add_to_log'')
      | TapeRef r \<Rightarrow> LoggingTape_add_to_log r new_log)"

definition call_print_logs :: "pyval \<Rightarrow> pyval py" where
  "call_print_logs obj =
     (case obj of
        PyNone \<Rightarrow> raise_py (AttributeError ''NoneType'' ''print_logs'')
      | TapeRef r \<Rightarrow> LoggingTape_print_logs r)"

subsection \<open>Logger and Car\<close>

text \<open>\<^verbatim>\<open>Car\<close> instances have no attribute of their own, so \<^verbatim>\<open>self.logging_tape\<close>
  reads the class attribute of \<^verbatim>\<open>Logger\<close> at the time of the call:
  \<^verbatim>\<open>self.logging_tape.add_to_log(f"Traveled Distance {distance}")\<close>\<close>

definition Car_travel :: "int \<Rightarrow> pyval py" where
  "Car_travel distance s =
     call_add_to_log (logging_tape s) (''Traveled Distance '' @ str_int distance) s"

subsection \<open>The with statement\<close>

text \<open>
  \<^verbatim>\<open>with mgr as v: body\<close> calls \<^verbatim>\<open>mgr.__enter__()\<close> and binds its result to \<^verbatim>\<open>v\<close>,
  runs the body, and calls \<^verbatim>\<open>mgr.__exit__\<close> on every way out of the body. An exception
  of the body is raised again after \<^verbatim>\<open>__exit__\<close> unless \<^verbatim>\<open>__exit__\<close> returned a
  true value. The variable stays bound after the block, so its value is the result.
\<close>

definition with_stmt :: "nat \<Rightarrow> (pyval \<Rightarrow> 'a py) \<Rightarrow> pyval py" where
  "with_stmt mgr body =
     bind_py (LoggingTape_enter mgr) (\<lambda>v s1.
       case body v s1 of
         (Inr x, s2) \<Rightarrow> bind_py (LoggingTape_exit mgr None) (\<lambda>_. return_py v) s2
       | (Inl e, s2) \<Rightarrow>
           bind_py (LoggingTape_exit mgr (Some e))
             (\<lambda>r. if truthy r then return_py v else raise_py e) s2)"

subsection \<open>The local tests of the module\<close>

text \<open>\<^verbatim>\<open>assert c\<close>\<close>

definition assert_py :: "bool \<Rightarrow> unit py" where
  "assert_py c = (if c then return_py () else raise_py AssertionError)"

text \<open>Lines 98 to 103:
  \<^verbatim>\<open>with LoggingTape() as tape: tape.add_to_log("Hi!")\<close> and then \<^verbatim>\<open>tape.print_logs()\<close>.\<close>

definition tape_test :: "pyval py" where
  "tape_test =
     bind_py LoggingTape_new (\<lambda>mgr.
     bind_py (with_stmt mgr (\<lambda>tape. call_add_to_log tape ''Hi!'')) (\<lambda>tape.
     call_print_logs tape))"

text \<open>Lines 106 to 109:
  \<^verbatim>\<open>car = Car()\<close>, \<^verbatim>\<open>with LoggingTape() as tape: car.travel(5)\<close>, \<^verbatim>\<open>tape.print_logs()\<close>.\<close>

definition car_test :: "pyval py" where
  "car_test =
     bind_py LoggingTape_new (\<lambda>mgr.
     bind_py (with_stmt mgr (\<lambda>tape. Car_travel 5)) (\<lambda>tape.
     call_print_logs tape))"

text \<open>Lines 89 to 95: the square and the multiplier.\<close>

definition square_test :: "unit py" where
  "square_test =
     bind_py (Square_init [PyStr ''square1'', PyInt 5]) (\<lambda>square1.
     bind_py (Square_getattr square1 ''name'') (\<lambda>n.
     bind_py (assert_py (n = PyStr ''square1'')) (\<lambda>_.
     bind_py (Square_getattr square1 ''length'') (\<lambda>l.
     assert_py (l = PyInt 5)))))"

section \<open>The environment setup script\<close>

text \<open>
  \<^verbatim>\<open>env_setup/setup.py\<close> talks to the machine it runs on: the interpreter's version, the
  operating system, the file system, the terminal and the processes it starts. The
  machine is a parameter of the model: a record of what each of these calls answers,
  over a type \<open>'w\<close> of machine states. What the script itself prints is kept in the
  model's own state, one entry for each call of \<^verbatim>\<open>print\<close>.
\<close>

subsection \<open>Commands, exceptions, the machine\<close>

text \<open>A command is a string (run through the shell) or a list of arguments.\<close>

datatype cmd = Shell string | Argv "string list"

text \<open>The exceptions the script can meet. \<^verbatim>\<open>SystemExit\<close> and \<^verbatim>\<open>KeyboardInterrupt\<close> are
  not subclasses of \<^verbatim>\<open>Exception\<close>; \<^verbatim>\<open>CalledProcessError\<close> is, and so is everything
  gathered under \<open>OtherException\<close> (with its text), such as the \<^verbatim>\<open>FileNotFoundError\<close>
  of a program that cannot be started.\<close>

datatype exn =
    CalledProcessError cmd int
  | SystemExit int
  | KeyboardInterrupt
  | OtherException string

text \<open>\<^verbatim>\<open>subprocess.CompletedProcess\<close>: the script reads only \<^verbatim>\<open>returncode\<close>.\<close>

record completed_process =
  returncode :: int

text \<open>
  A \<^verbatim>\<open>pathlib\<close> path, as \<^verbatim>\<open>pathlib\<close> keeps it: the anchor (drive and root, empty for a
  relative path) and the components after it. \<^verbatim>\<open>Path(".")\<close> has no component.
\<close>

record pure_path =
  anchor :: string
  parts :: "string list"

record 'w platform =
  sys_version_info :: "int \<times> int \<times> int"
  sys_executable :: string
  platform_system :: string
  platform_machine :: string
  path_sep :: string
  shutil_which :: "string \<Rightarrow> 'w \<Rightarrow> bool"
  subprocess_spawn :: "cmd \<Rightarrow> bool \<Rightarrow> bool \<Rightarrow> 'w \<Rightarrow> (exn + int) \<times> 'w"
  Path_exists :: "pure_path \<Rightarrow> 'w \<Rightarrow> bool"
  Path_resolve :: "pure_path \<Rightarrow> 'w \<Rightarrow> string"
  Path_name :: "string \<Rightarrow> string"
  Path_cwd :: "'w \<Rightarrow> string"
  shutil_rmtree :: "pure_path \<Rightarrow> 'w \<Rightarrow> (exn + unit) \<times> 'w"
  builtin_input :: "string \<Rightarrow> 'w \<Rightarrow> (exn + string) \<times> 'w"
  repr_list :: "string list \<Rightarrow> string"
  str_exn :: "exn \<Rightarrow> string"

text \<open>
  \<open>sys_version_info\<close> is (major, minor, micro); \<open>shutil_which name\<close> tells whether
  \<^verbatim>\<open>shutil.which(name)\<close> finds a program; \<open>subprocess_spawn cmd shell capture_output\<close>
  runs the command to its end and gives its exit status, or the exception of a process
  that could not be run; \<open>repr_list\<close> and \<open>str_exn\<close> are the texts an f-string puts for
  a list of strings and for an exception.
\<close>

record 'w world =
  out :: "string list"
  env :: 'w

type_synonym ('w, 'a) step = "'w world \<Rightarrow> (exn + 'a) \<times> 'w world"

definition then_py ::
  "('s \<Rightarrow> ('e + 'a) \<times> 's) \<Rightarrow> ('s \<Rightarrow> ('e + 'b) \<times> 's) \<Rightarrow> 's \<Rightarrow> ('e + 'b) \<times> 's" where
  "then_py m k = bind_py m (\<lambda>_. k)"

subsection \<open>Configuration and colours\<close>

definition ENV_NAME :: string where
  "ENV_NAME = ''csci1470''"

definition PYTHON_VERSION_REQUIRED :: "int \<times> int" where
  "PYTHON_VERSION_REQUIRED = (3, 11)"

definition REQUIREMENTS_FILE :: string where
  "REQUIREMENTS_FILE = ''env_setup/requirements.txt''"

definition INSTALL_IN_PARENT :: bool where
  "INSTALL_IN_PARENT = True"

definition Colors_RED :: string where
  "Colors_RED = CHR 0x1B # ''[1;31m''"

definition Colors_GREEN :: string where
  "Colors_GREEN = CHR 0x1B # ''[1;32m''"

definition Colors_YELLOW :: string where
  "Colors_YELLOW = CHR 0x1B # ''[1;33m''"

definition Colors_CYAN :: string where
  "Colors_CYAN = CHR 0x1B # ''[1;36m''"

definition Colors_NC :: string where
  "Colors_NC = CHR 0x1B # ''[0m''"

text \<open>Characters of the messages that are not ASCII, as their UTF-8 bytes, and the
  line feed and the two quotation marks.\<close>

definition newline :: string where
  "newline = [CHR 0x0A]"

definition apostrophe :: string where
  "apostrophe = [CHR 0x27]"

definition dquote :: string where
  "dquote = [CHR 0x22]"

definition check_mark :: string where
  "check_mark = [CHR 0xE2, CHR 0x9C, CHR 0x93]"

definition ballot_x :: string where
  "ballot_x = [CHR 0xE2, CHR 0x9C, CHR 0x97]"

definition box_tee :: string where
  "box_tee = [CHR 0xE2, CHR 0x94, CHR 0x9C, CHR 0xE2, CHR 0x94, CHR 0x80, CHR 0xE2, CHR 0x94, CHR 0x80]"

definition box_corner :: string where
  "box_corner = [CHR 0xE2, CHR 0x94, CHR 0x94, CHR 0xE2, CHR 0x94, CHR 0x80, CHR 0xE2, CHR 0x94, CHR 0x80]"

text \<open>\<^verbatim>\<open>print(f"{color}{message}{Colors.NC}")\<close>\<close>

definition print_colored :: "string \<Rightarrow> string \<Rightarrow> ('w, unit) step" where
  "print_colored message color w = (Inr (), w\<lparr>out := out w @ [color @ message @ Colors_NC]\<rparr>)"

subsection \<open>String methods\<close>

text \<open>
  Text is kept as its UTF-8 bytes. \<^verbatim>\<open>str.lower\<close> is modelled on the ASCII letters; a
  letter beyond ASCII is left as it is. No such letter becomes \<^verbatim>\<open>y\<close> or a letter of
  \<^verbatim>\<open>darwin\<close> or \<^verbatim>\<open>windows\<close> in lower case, so the comparisons of the script come out
  as in Python; only the line \<^verbatim>\<open>Detected: ...\<close> would differ, for a system or machine
  name with a capital letter beyond ASCII.
\<close>

definition lower_char :: "char \<Rightarrow> char" where
  "lower_char c =
     (case map_of (zip ''ABCDEFGHIJKLMNOPQRSTUVWXYZ'' ''abcdefghijklmnopqrstuvwxyz'') c of
        Some d \<Rightarrow> d
      | None \<Rightarrow> c)"

definition lower :: "string \<Rightarrow> string" where
  "lower s = map lower_char s"

text \<open>
  The characters \<^verbatim>\<open>str.strip()\<close> removes are those of \<^verbatim>\<open>str.isspace\<close>: U+0009 to U+000D,
  U+001C to U+0020, U+0085, U+00A0, U+1680, U+2000 to U+200A, U+2028, U+2029, U+202F, U+205F
  and U+3000, here each as its UTF-8 bytes.
\<close>

definition whitespace :: "string list" where
  "whitespace =
     [[CHR 0x09], [CHR 0x0A], [CHR 0x0B], [CHR 0x0C], [CHR 0x0D],
      [CHR 0x1C], [CHR 0x1D], [CHR 0x1E], [CHR 0x1F], [CHR 0x20],
      [CHR 0xC2, CHR 0x85], [CHR 0xC2, CHR 0xA0],
      [CHR 0xE1, CHR 0x9A, CHR 0x80],
      [CHR 0xE2, CHR 0x80, CHR 0x80], [CHR 0xE2, CHR 0x80, CHR 0x81],
      [CHR 0xE2, CHR 0x80, CHR 0x82], [CHR 0xE2, CHR 0x80, CHR 0x83],
      [CHR 0xE2, CHR 0x80, CHR 0x84], [CHR 0xE2, CHR 0x80, CHR 0x85],
      [CHR 0xE2, CHR 0x80, CHR 0x86], [CHR 0xE2, CHR 0x80, CHR 0x87],
      [CHR 0xE2, CHR 0x80, CHR 0x88], [CHR 0xE2, CHR 0x80, CHR 0x89],
      [CHR 0xE2, CHR 0x80, CHR 0x8A],
      [CHR 0xE2, CHR 0x80, CHR 0xA8], [CHR 0xE2, CHR 0x80, CHR 0xA9],
      [CHR 0xE2, CHR 0x80, CHR 0xAF],
      [CHR 0xE2, CHR 0x81, CHR 0x9F],
      [CHR 0xE3, CHR 0x80, CHR 0x80]]"

text \<open>The text after one leading character of the list \<open>ws\<close>, if the text starts with
  one.\<close>

definition drop_space :: "string list \<Rightarrow> string \<Rightarrow> string option" where
  "drop_space ws s =
     map_option (\<lambda>e. drop (length e) s) (find (\<lambda>e. e \<noteq> [] \<and> take (length e) s = e) ws)"

function lstrip_with :: "string list \<Rightarrow> string \<Rightarrow> string" where
  "lstrip_with ws s = (case drop_space ws s of None \<Rightarrow> s | Some rest \<Rightarrow> lstrip_with ws rest)"
  by pat_completeness auto
termination
proof (relation "measure (\<lambda>(ws, s). length s)")
  show "wf (measure (\<lambda>(ws, s). length s))"
    by simp
next
  fix ws :: "string list" and s rest :: string
  assume "drop_space ws s = Some rest"
  then obtain e where e: "e \<noteq> []" "take (length e) s = e" "rest = drop (length e) s"
    by (auto simp: drop_space_def find_Some_iff)
  from e(1,2) have "s \<noteq> []"
    by auto
  with e(1,3) have "length rest < length s"
    by simp
  then show "((ws, rest), (ws, s)) \<in> measure (\<lambda>(ws, s). length s)"
    by simp
qed

declare lstrip_with.simps [simp del]

text \<open>\<^verbatim>\<open>s.strip()\<close>: white space is taken off the front, then off the end (read backwards,
  each character's bytes are reversed).\<close>

definition strip :: "string \<Rightarrow> string" where
  "strip s = rev (lstrip_with (map rev whitespace) (rev (lstrip_with whitespace s)))"

text \<open>\<^verbatim>\<open>sep.join(xs)\<close>\<close>

fun join :: "string \<Rightarrow> string list \<Rightarrow> string" where
  "join sep [] = []"
| "join sep [x] = x"
| "join sep (x # y # ys) = x @ sep @ join sep (y # ys)"

subsection \<open>Paths\<close>

text \<open>The pieces of a string between its slashes.\<close>

fun split_slash :: "string \<Rightarrow> string list" where
  "split_slash [] = [[]]"
| "split_slash (c # cs) =
     (if c = CHR ''/'' then [] # split_slash cs
      else (case split_slash cs of x # xs \<Rightarrow> (c # x) # xs | [] \<Rightarrow> [[c]]))"

text \<open>
  \<^verbatim>\<open>Path(s)\<close> for a string written with \<^verbatim>\<open>/\<close>, as the script's are (\<^verbatim>\<open>".."\<close>,
  \<^verbatim>\<open>ENV_NAME\<close>, \<^verbatim>\<open>REQUIREMENTS_FILE\<close>): \<^verbatim>\<open>pathlib\<close> keeps the pieces between the
  slashes and leaves out the empty ones and \<^verbatim>\<open>.\<close>; slashes at the front make the root,
  which is \<^verbatim>\<open>//\<close> for exactly two of them and \<^verbatim>\<open>/\<close> otherwise. (On Windows a backslash
  separates too and a drive can come first; a string with either is outside this
  definition.)
\<close>

definition root_of :: "string \<Rightarrow> string" where
  "root_of s =
     (if length (takeWhile (\<lambda>c. c = CHR ''/'') s) = 0 then []
      else if length (takeWhile (\<lambda>c. c = CHR ''/'') s) = 2 then ''//''
      else ''/'')"

definition Path :: "string \<Rightarrow> pure_path" where
  "Path s =
     \<lparr>anchor = root_of s, parts = filter (\<lambda>c. c \<noteq> [] \<and> c \<noteq> ''.'') (split_slash s)\<rparr>"

text \<open>\<^verbatim>\<open>p / s\<close>: the components of \<^verbatim>\<open>s\<close> come after those of \<^verbatim>\<open>p\<close>, unless \<^verbatim>\<open>s\<close>
  has a root, which makes it the result.\<close>

definition path_div :: "pure_path \<Rightarrow> string \<Rightarrow> pure_path" where
  "path_div p s =
     (if anchor (Path s) \<noteq> [] then Path s else p\<lparr>parts := parts p @ parts (Path s)\<rparr>)"

text \<open>\<^verbatim>\<open>str(p)\<close>: the anchor and the components joined by the separator of the platform,
  and \<^verbatim>\<open>.\<close> for the path without either.\<close>

definition str_path :: "'w platform \<Rightarrow> pure_path \<Rightarrow> string" where
  "str_path P p =
     (if anchor p = [] \<and> parts p = [] then ''.''
      else anchor p @ join (path_sep P) (parts p))"

subsection \<open>Running a command\<close>

text \<open>
  \<^verbatim>\<open>subprocess.run(cmd, shell=shell, check=check, capture_output=capture_output, text=True)\<close>
  returns the completed process; with \<^verbatim>\<open>check\<close> set, an exit status other than 0
  raises \<^verbatim>\<open>CalledProcessError\<close>.
\<close>

definition subprocess_run ::
  "'w platform \<Rightarrow> cmd \<Rightarrow> bool \<Rightarrow> bool \<Rightarrow> bool \<Rightarrow> ('w, completed_process) step" where
  "subprocess_run P c shell check capture_output w =
     (case subprocess_spawn P c shell capture_output (env w) of
        (Inl e, v) \<Rightarrow> (Inl e, w\<lparr>env := v\<rparr>)
      | (Inr rc, v) \<Rightarrow>
          if check \<and> rc \<noteq> 0 then (Inl (CalledProcessError c rc), w\<lparr>env := v\<rparr>)
          else (Inr \<lparr>returncode = rc\<rparr>, w\<lparr>env := v\<rparr>))"

text \<open>\<^verbatim>\<open>f"{cmd}"\<close>\<close>

definition fmt_cmd :: "'w platform \<Rightarrow> cmd \<Rightarrow> string" where
  "fmt_cmd P c = (case c of Shell s \<Rightarrow> s | Argv xs \<Rightarrow> repr_list P xs)"

text \<open>\<^verbatim>\<open>isinstance(cmd, str)\<close>\<close>

fun is_str :: "cmd \<Rightarrow> bool" where
  "is_str (Shell s) = True"
| "is_str (Argv xs) = False"

text \<open>
  \<^verbatim>\<open>run_command(cmd, check=True, capture_output=False)\<close>: the result of
  \<^verbatim>\<open>subprocess.run\<close>, or \<^verbatim>\<open>None\<close> after printing two red lines when it raised
  \<^verbatim>\<open>CalledProcessError\<close>. Any other exception goes on to the caller.
\<close>

definition run_command ::
  "'w platform \<Rightarrow> cmd \<Rightarrow> bool \<Rightarrow> bool \<Rightarrow> ('w, completed_process option) step" where
  "run_command P c check capture_output w =
     (case (if is_str c then subprocess_run P c True check capture_output w
            else subprocess_run P c False check capture_output w) of
        (Inr result, w') \<Rightarrow> (Inr (Some result), w')
      | (Inl (CalledProcessError c' rc), w') \<Rightarrow>
          then_py (print_colored (''Command failed: '' @ fmt_cmd P c) Colors_RED)
         (then_py (print_colored (''Error: '' @ str_exn P (CalledProcessError c' rc)) Colors_RED)
                  (return_py None)) w'
      | (Inl e, w') \<Rightarrow> (Inl e, w'))"

subsection \<open>The steps of the setup\<close>

text \<open>Comparison of \<^verbatim>\<open>version[:2]\<close> with a pair: tuples compare lexicographically.\<close>

definition tuple_less :: "int \<times> int \<Rightarrow> int \<times> int \<Rightarrow> bool" where
  "tuple_less a b = (fst a < fst b \<or> (fst a = fst b \<and> snd a < snd b))"

definition check_python_version :: "'w platform \<Rightarrow> ('w, bool) step" where
  "check_python_version P =
     (case sys_version_info P of (major, minor, micro) \<Rightarrow>
        then_py (print_colored (''Found Python '' @ str_int major @ ''.'' @ str_int minor
                                @ ''.'' @ str_int micro) Colors_CYAN)
        (if tuple_less (major, minor) (3, 11) then
           then_py (print_colored (''Error: Python 3.11+ required, found '' @ str_int major
                                   @ ''.'' @ str_int minor) Colors_RED)
          (then_py (print_colored ''Install Python 3.11 from: https://python.org/downloads/''
                      Colors_YELLOW)
                   (return_py False))
         else if tuple_less (3, 12) (major, minor) then
           then_py (print_colored (''Error: Python '' @ str_int major @ ''.'' @ str_int minor
                                   @ '' not supported by TensorFlow 2.15'') Colors_RED)
          (then_py (print_colored ''Please install Python 3.11 or 3.12:'' Colors_YELLOW)
          (then_py (print_colored ''macOS: brew install python@3.11'' Colors_YELLOW)
          (then_py (print_colored
                      ''Windows/Linux: https://python.org/downloads/release/python-3119/''
                      Colors_YELLOW)
                   (return_py False))))
         else
           then_py (print_colored (check_mark @ '' Python '' @ str_int major @ ''.''
                                   @ str_int minor @ '' is compatible'') Colors_GREEN)
                   (return_py True)))"

definition get_os_info :: "'w platform \<Rightarrow> ('w, string \<times> bool) step" where
  "get_os_info P =
     (let system = lower (platform_system P);
          architecture = lower (platform_machine P);
          (os_type, is_apple_silicon) =
            (if system = ''darwin'' then (''mac'', architecture \<in> set [''arm64'', ''aarch64''])
             else if system = ''windows'' then (''windows'', False)
             else (''linux'', False))
      in then_py (print_colored (''Detected: '' @ system @ '' ('' @ architecture @ '')'')
                    Colors_CYAN)
                 (return_py (os_type, is_apple_silicon)))"

text \<open>The loop over the Homebrew packages: \<^verbatim>\<open>brew list\<close> with \<^verbatim>\<open>check=False\<close>, and
  \<^verbatim>\<open>brew install\<close> when it answered with a status other than 0. The result of the
  installation is not looked at.\<close>

fun brew_deps :: "'w platform \<Rightarrow> string list \<Rightarrow> ('w, unit) step" where
  "brew_deps P [] = return_py ()"
| "brew_deps P (dep # deps) =
     bind_py (run_command P (Shell (''brew list '' @ dep)) False True) (\<lambda>result.
     then_py (if (case result of None \<Rightarrow> False | Some r \<Rightarrow> returncode r \<noteq> 0)
              then then_py (run_command P (Shell (''brew install '' @ dep)) True False)
                           (return_py ())
              else return_py ())
             (brew_deps P deps))"

definition check_system_dependencies :: "'w platform \<Rightarrow> string \<Rightarrow> ('w, bool) step" where
  "check_system_dependencies P os_type =
     then_py (print_colored ''Checking system dependencies...'' Colors_CYAN) (\<lambda>w.
       if os_type = ''mac'' then
         (if \<not> shutil_which P ''brew'' (env w) then
            then_py (print_colored ''Homebrew not found. Please install it first:''
                       Colors_YELLOW)
           (then_py (print_colored ''Visit: https://brew.sh/'' Colors_YELLOW)
           (then_py (print_colored
                       (''Or run: /bin/bash -c '' @ dquote @ ''$(curl -fsSL ''
                        @ ''https://raw.githubusercontent.com/Homebrew/install/HEAD/install.sh)''
                        @ dquote)
                       Colors_YELLOW)
                    (return_py False))) w
          else
            then_py (brew_deps P [''python@3.11'', ''hdf5'', ''pkg-config''])
                    (return_py True) w)
       else if os_type = ''linux'' then
         (if shutil_which P ''apt-get'' (env w) then
            then_py (run_command P (Shell ''sudo apt-get update'') True False)
           (then_py (run_command P
               (Shell (''sudo apt-get install -y ''
                  @ join '' '' [''python3.11'', ''python3.11-venv'', ''python3.11-dev'',
                                ''libhdf5-dev'', ''pkg-config'', ''build-essential'']))
               True False)
                    (return_py True)) w
          else if shutil_which P ''yum'' (env w) then
            then_py (run_command P
               (Shell (''sudo yum install -y ''
                  @ join '' '' [''python311'', ''python311-devel'', ''hdf5-devel'',
                                ''pkgconfig'', ''gcc'', ''gcc-c++'']))
               True False)
                    (return_py True) w
          else if shutil_which P ''dnf'' (env w) then
            then_py (run_command P
               (Shell (''sudo dnf install -y ''
                  @ join '' '' [''python3.11'', ''python3-devel'', ''hdf5-devel'',
                                ''pkgconfig'', ''gcc'', ''gcc-c++'']))
               True False)
                    (return_py True) w
          else return_py True w)
       else return_py True w)"

text \<open>\<^verbatim>\<open>create_virtual_environment()\<close> returns the path of the environment, or
  \<^verbatim>\<open>None\<close> when the \<^verbatim>\<open>venv\<close> command failed.\<close>

definition create_virtual_environment :: "'w platform \<Rightarrow> ('w, pure_path option) step" where
  "create_virtual_environment P =
     bind_py (if INSTALL_IN_PARENT then
                (\<lambda>w. then_py (print_colored
                          (''Installing virtual environment in parent directory: ''
                           @ Path_resolve P (path_div (Path ''..'') ENV_NAME) (env w)) Colors_CYAN)
                        (return_py (path_div (Path ''..'') ENV_NAME)) w)
              else return_py (Path ENV_NAME)) (\<lambda>env_path.
     bind_py (\<lambda>w.
       if Path_exists P env_path (env w) then
         then_py (print_colored (''Virtual environment '' @ apostrophe @ ENV_NAME @ apostrophe
                    @ '' already exists at '' @ Path_resolve P env_path (env w) @ ''.'')
                    Colors_YELLOW)
                 (bind_py (\<lambda>w'. case builtin_input P ''Do you want to recreate it? (y/N): '' (env w') of
                                   (Inl e, v) \<Rightarrow> (Inl e, w'\<lparr>env := v\<rparr>)
                                 | (Inr line, v) \<Rightarrow> (Inr (lower (strip line)), w'\<lparr>env := v\<rparr>))
                    (\<lambda>response.
                       if response = ''y'' then
                         then_py (print_colored ''Removing existing environment...'' Colors_YELLOW)
                        (then_py (\<lambda>w'. case shutil_rmtree P env_path (env w') of
                                           (r, v) \<Rightarrow> (r, w'\<lparr>env := v\<rparr>))
                                 (return_py None))
                       else return_py (Some env_path))) w
       else return_py None w) (\<lambda>early.
     case early of
       Some p \<Rightarrow> return_py (Some p)
     | None \<Rightarrow>
         bind_py (\<lambda>w. print_colored (''Creating virtual environment '' @ apostrophe @ ENV_NAME
                         @ apostrophe @ '' at '' @ Path_resolve P env_path (env w) @ ''...'')
                         Colors_CYAN w) (\<lambda>_.
         bind_py (run_command P (Argv [sys_executable P, ''-m'', ''venv'', str_path P env_path])
                    True False)
           (\<lambda>result.
              if result = None then return_py None
              else then_py (print_colored ''Virtual environment created successfully!''
                              Colors_GREEN)
                           (return_py (Some env_path))))))"

definition get_activation_command :: "pure_path \<Rightarrow> string \<Rightarrow> string" where
  "get_activation_command env_path os_type =
     (if os_type = ''windows'' then ''../csci1470/Scripts/activate''
      else ''source '' @ ''../csci1470/bin/activate'')"

text \<open>The interpreter and \<^verbatim>\<open>pip\<close> inside the environment.\<close>

definition python_exe :: "pure_path \<Rightarrow> string \<Rightarrow> pure_path" where
  "python_exe env_path os_type =
     (if os_type = ''windows'' then path_div (path_div env_path ''Scripts'') ''python.exe''
      else path_div (path_div env_path ''bin'') ''python'')"

definition pip_exe :: "pure_path \<Rightarrow> string \<Rightarrow> pure_path" where
  "pip_exe env_path os_type =
     (if os_type = ''windows'' then path_div (path_div env_path ''Scripts'') ''pip.exe''
      else path_div (path_div env_path ''bin'') ''pip'')"

definition install_requirements :: "'w platform \<Rightarrow> pure_path \<Rightarrow> string \<Rightarrow> ('w, bool) step" where
  "install_requirements P env_path os_type w =
     (if \<not> Path_exists P (Path REQUIREMENTS_FILE) (env w) then
        then_py (print_colored (''Error: '' @ REQUIREMENTS_FILE @ '' not found!'') Colors_RED)
                (return_py False) w
      else
        then_py (print_colored ''Upgrading pip...'' Colors_CYAN)
       (bind_py (run_command P
                   (Argv [str_path P (python_exe env_path os_type), ''-m'', ''pip'', ''install'',
                          ''--upgrade'', ''pip'']) True False) (\<lambda>result.
          if result = None then return_py False
          else
            then_py (print_colored ''Installing packages from requirements.txt...'' Colors_CYAN)
           (bind_py (run_command P
                       (Argv [str_path P (pip_exe env_path os_type), ''install'', ''-r'', REQUIREMENTS_FILE])
                       True False) (\<lambda>result.
              if result = None then
                then_py (print_colored
                           ''Package installation failed. Trying with --no-cache-dir...''
                           Colors_YELLOW)
               (bind_py (run_command P
                           (Argv [str_path P (pip_exe env_path os_type), ''install'', ''--no-cache-dir'',
                                  ''-r'', REQUIREMENTS_FILE]) True False) (\<lambda>result.
                  if result = None then return_py False
                  else return_py True))
              else return_py True)))) w)"

definition setup_jupyter_kernel :: "'w platform \<Rightarrow> pure_path \<Rightarrow> string \<Rightarrow> ('w, bool) step" where
  "setup_jupyter_kernel P env_path os_type =
     then_py (print_colored ''Setting up Jupyter kernel...'' Colors_CYAN)
    (bind_py (run_command P
                (Argv [str_path P (python_exe env_path os_type), ''-m'', ''ipykernel'', ''install'',
                       ''--user'', ''--name'', ENV_NAME, ''--display-name'',
                       ''DL-S25 (3.11) - '' @ ENV_NAME]) True False) (\<lambda>result.
       if result \<noteq> None then
         then_py (print_colored ''Jupyter kernel installed successfully!'' Colors_GREEN)
                 (return_py True)
       else
         then_py (print_colored ''Jupyter kernel installation failed'' Colors_RED)
                 (return_py False)))"

text \<open>The loop of \<^verbatim>\<open>verify_installation\<close>: it returns \<^verbatim>\<open>False\<close> at the first package
  whose import fails, and \<^verbatim>\<open>True\<close> after the last one.\<close>

fun verify_imports :: "'w platform \<Rightarrow> string \<Rightarrow> string list \<Rightarrow> ('w, bool) step" where
  "verify_imports P exe [] = return_py True"
| "verify_imports P exe (package # rest) =
     bind_py (run_command P
                (Argv [exe, ''-c'', ''import '' @ package @ ''; print(f'' @ apostrophe @ package
                                    @ '' OK'' @ apostrophe @ '')'']) True True) (\<lambda>result.
       if (case result of None \<Rightarrow> False | Some r \<Rightarrow> returncode r = 0) then
         then_py (print_colored (check_mark @ '' '' @ package) Colors_GREEN)
                 (verify_imports P exe rest)
       else
         then_py (print_colored (ballot_x @ '' '' @ package @ '' - Import failed'') Colors_RED)
                 (return_py False))"

definition verify_installation :: "'w platform \<Rightarrow> pure_path \<Rightarrow> string \<Rightarrow> ('w, bool) step" where
  "verify_installation P env_path os_type =
     then_py (print_colored ''Verifying installation...'' Colors_CYAN)
             (verify_imports P (str_path P (python_exe env_path os_type))
                [''numpy'', ''tensorflow'', ''pandas'', ''matplotlib'', ''sklearn'', ''PIL'',
                 ''h5py''])"

definition print_next_steps :: "'w platform \<Rightarrow> pure_path \<Rightarrow> string \<Rightarrow> ('w, unit) step" where
  "print_next_steps P env_path os_type =
     then_py (print_colored (newline @ replicate 60 CHR ''='') Colors_GREEN)
    (then_py (print_colored ''SETUP COMPLETE!'' Colors_GREEN)
    (then_py (print_colored (replicate 60 CHR ''='') Colors_GREEN)
    (then_py (\<lambda>w. print_colored (newline @ ''Virtual environment created at: ''
                      @ Path_resolve P env_path (env w)) Colors_CYAN w)
    (then_py (print_colored (newline @ ''Intended Directory Structure:'') Colors_CYAN)
    (then_py (\<lambda>w. print_colored (''  '' @ Path_name P (Path_resolve P (Path ''..'') (env w)) @ ''/'')
                      Colors_YELLOW w)
    (then_py (print_colored (''  '' @ box_tee @ '' '' @ ENV_NAME
                             @ ''/          # Virtual environment'') Colors_YELLOW)
    (then_py (\<lambda>w. print_colored (''  '' @ box_corner @ '' '' @ Path_name P (Path_cwd P (env w))
                      @ ''/      # Assignment repo (current directory)'') Colors_YELLOW w)
    (then_py (print_colored (newline @ ''To activate your environment:'') Colors_CYAN)
    (then_py (print_colored (''  '' @ get_activation_command env_path os_type) Colors_YELLOW)
    (then_py (print_colored (newline @ ''To deactivate:'') Colors_CYAN)
    (then_py (print_colored ''  deactivate'' Colors_YELLOW)
    (if INSTALL_IN_PARENT then
       then_py (print_colored (newline @ ''Working on Future Assignments!!!'') Colors_CYAN)
      (then_py (print_colored ''  1. Clone new assignment repos in the parent directory''
                  Colors_YELLOW)
      (then_py (print_colored ''  2. Activate the environment from any assignment directory''
                  Colors_YELLOW)
               (print_colored ''  3. The same environment will be used for all assignments''
                  Colors_YELLOW)))
     else return_py ()))))))))))))"

text \<open>\<^verbatim>\<open>sys.exit(code)\<close>\<close>

definition sys_exit :: "int \<Rightarrow> 's \<Rightarrow> (exn + 'a) \<times> 's" where
  "sys_exit code = raise_py (SystemExit code)"

definition main :: "'w platform \<Rightarrow> ('w, unit) step" where
  "main P =
     then_py (print_colored ''CSCI 1470 Deep Learning Environment Setup'' Colors_CYAN)
    (then_py (print_colored (replicate 50 CHR ''='') Colors_CYAN)
    (bind_py (check_python_version P) (\<lambda>ok.
       if \<not> ok then
         then_py (print_colored
                    (newline @ ''Please install Python 3.11.x and run this script again.'')
                    Colors_RED)
        (then_py (print_colored
                    ''Follow the troubleshooting steps on the handout if you are having issues!''
                    Colors_YELLOW)
                 (sys_exit 1))
       else
         bind_py (get_os_info P) (\<lambda>(os_type, is_apple_silicon).
         bind_py (check_system_dependencies P os_type) (\<lambda>deps_ok.
           if \<not> deps_ok then
             then_py (print_colored
                        (''Please install required system dependencies and run again. ''
                         @ ''Follow the troubleshooting steps on the handout if you are having issues!'')
                        Colors_RED)
                     (sys_exit 1)
           else
             bind_py (create_virtual_environment P) (\<lambda>env_path.
               case env_path of
                 None \<Rightarrow>
                   then_py (print_colored
                              (''Failed to create virtual environment. ''
                               @ ''Follow the troubleshooting steps on the handout if you are having issues!'')
                              Colors_RED)
                           (sys_exit 1)
               | Some env_path \<Rightarrow>
                   bind_py (install_requirements P env_path os_type) (\<lambda>installed.
                     if \<not> installed then
                       then_py (print_colored
                                  (''Failed to install requirements. ''
                                   @ ''Follow the troubleshooting steps on the handout if you are having issues!'')
                                  Colors_RED)
                               (sys_exit 1)
                     else
                       then_py (setup_jupyter_kernel P env_path os_type)
                      (bind_py (verify_installation P env_path os_type) (\<lambda>verified.
                       then_py (if \<not> verified then
                                  then_py (print_colored
                                             (''Installation verification failed. ''
                                              @ ''Some packages may not work correctly.'')
                                             Colors_YELLOW)
                                 (then_py (print_colored (newline @ ''Troubleshooting:'') Colors_CYAN)
                                          (print_colored
                                             ('' -  Follow the troubleshooting steps on the ''
                                              @ ''handout if you are having issues!'')
                                             Colors_YELLOW))
                                else return_py ())
                               (print_next_steps P env_path os_type))))))))))"

text \<open>
  The script as a program: \<^verbatim>\<open>main()\<close> under the two handlers of the last lines, and the
  exit status of the process. \<^verbatim>\<open>SystemExit\<close> passes both handlers.
\<close>

definition script :: "'w platform \<Rightarrow> 'w world \<Rightarrow> int \<times> 'w world" where
  "script P w =
     (case main P w of
        (Inr u, w') \<Rightarrow> (0, w')
      | (Inl KeyboardInterrupt, w') \<Rightarrow>
          (1, snd (print_colored (newline @ ''Setup interrupted by user.'') Colors_YELLOW w'))
      | (Inl (SystemExit code), w') \<Rightarrow> (code, w')
      | (Inl e, w') \<Rightarrow>
          (1, snd (print_colored (newline @ ''Unexpected error: '' @ str_exn P e) Colors_RED w')))"

subsection \<open>A machine for the examples\<close>

text \<open>
  A Linux machine with \<^verbatim>\<open>apt-get\<close> whose interpreter has version \<open>v\<close>, where the
  requirements file is the only path that exists, and where a command ends with status 1
  if \<open>fails\<close> holds of it and with status 0 otherwise. The machine has no state of
  its own.
\<close>

definition linux_box :: "int \<times> int \<times> int \<Rightarrow> (cmd \<Rightarrow> bool) \<Rightarrow> unit platform" where
  "linux_box v fails =
     \<lparr>sys_version_info = v,
      sys_executable = ''/usr/bin/python3'',
      platform_system = ''Linux'',
      platform_machine = ''x86_64'',
      path_sep = ''/'',
      shutil_which = (\<lambda>name w. name = ''apt-get''),
      subprocess_spawn = (\<lambda>c shell capture_output w. (Inr (if fails c then 1 else 0), w)),
      Path_exists = (\<lambda>p w. p = Path REQUIREMENTS_FILE),
      Path_resolve = (\<lambda>p w. ''/'' @ join ''/''
                        (foldl (\<lambda>dir part. if part = ''..'' then butlast dir else dir @ [part])
                           [''home'', ''student'', ''hw1''] (parts p))),
      Path_name = (\<lambda>p. rev (takeWhile (\<lambda>c. c \<noteq> CHR ''/'') (rev p))),
      Path_cwd = (\<lambda>w. ''/home/student/hw1''),
      shutil_rmtree = (\<lambda>p w. (Inr (), w)),
      builtin_input = (\<lambda>prompt w. (Inr ''n'', w)),
      repr_list = (\<lambda>xs. ''['' @ join '', '' xs @ '']''),
      str_exn = (\<lambda>e. ''error'')\<rparr>"

text \<open>The commands \<^verbatim>\<open>pip install ...\<close> of \<^verbatim>\<open>install_requirements\<close>, as opposed to
  \<^verbatim>\<open>python -m pip install --upgrade pip\<close>.\<close>

fun is_pip_install :: "cmd \<Rightarrow> bool" where
  "is_pip_install (Argv (exe # arg # rest)) = (arg = ''install'')"
| "is_pip_install c = False"

definition empty_world :: "unit world" where
  "empty_world = \<lparr>out = [], env = ()\<rparr>"

section \<open>Properties of the tutorial classes\<close>

lemmas py_defs = return_py_def raise_py_def bind_py_def

text \<open>\<^verbatim>\<open>__enter__\<close> returns \<^verbatim>\<open>None\<close> and \<^verbatim>\<open>__exit__\<close> returns \<^verbatim>\<open>None\<close>, which is
  false: the block leaves the state as its body left it, binds \<^verbatim>\<open>None\<close>, and an
  exception of the body goes on to the caller.\<close>

lemma with_stmt_raise:
  "body PyNone s = (Inl e, s') \<Longrightarrow> with_stmt mgr body s = (Inl e, s')"
  by (simp add: with_stmt_def LoggingTape_enter_def LoggingTape_exit_def py_defs)

lemma with_stmt_return:
  "body PyNone s = (Inr x, s') \<Longrightarrow> with_stmt mgr body s = (Inr PyNone, s')"
  by (simp add: with_stmt_def LoggingTape_enter_def LoggingTape_exit_def py_defs)

lemma LoggingTape_new_eq:
  "LoggingTape_new s =
     (Inr (next_ref s),
      s\<lparr>next_ref := Suc (next_ref s), logs_of := (logs_of s)(next_ref s \<mapsto> Ellipsis)\<rparr>)"
  by (simp add: LoggingTape_new_def LoggingTape_init_def Let_def py_defs)

text \<open>
  C1. Entries appended during one window are printed, in order, by \<^verbatim>\<open>print_logs\<close> after
  the window; the local test appends \<^verbatim>\<open>Hi!\<close> and expects that one line.
  The code does not do this. In the local test (lines 98 to 103) the name \<^verbatim>\<open>tape\<close> is
  bound to \<^verbatim>\<open>None\<close>, so \<^verbatim>\<open>tape.add_to_log("Hi!")\<close> raises AttributeError and nothing
  is printed. Calling the methods on the recorder object itself does not help:
  \<^verbatim>\<open>add_to_log\<close> stores nothing and \<^verbatim>\<open>print_logs\<close> raises TypeError on the
  \<^verbatim>\<open>Ellipsis\<close> that \<^verbatim>\<open>__init__\<close> stored.
\<close>

theorem tape_test_raises:
  "tape_test init_state =
     (Inl (AttributeError ''NoneType'' ''add_to_log''),
      \<lparr>logs_of = [0 \<mapsto> Ellipsis], next_ref = 1, logging_tape = PyNone, stdout = []\<rparr>)
   \<and> bind_py LoggingTape_new (\<lambda>t.
       bind_py (with_stmt t (\<lambda>_. LoggingTape_add_to_log t ''Hi!'')) (\<lambda>_.
       LoggingTape_print_logs t)) init_state =
     (Inl (TypeError '''ellipsis' object is not iterable''),
      \<lparr>logs_of = [0 \<mapsto> Ellipsis], next_ref = 1, logging_tape = PyNone, stdout = []\<rparr>)"
  by (simp add: tape_test_def with_stmt_def LoggingTape_new_eq LoggingTape_add_to_log_def
      LoggingTape_print_logs_def LoggingTape_enter_def LoggingTape_exit_def
      call_add_to_log_def init_state_def py_defs)

text \<open>
  C2. When a window exits, normally or by an exception, the class attribute
  \<^verbatim>\<open>Logger.logging_tape\<close> is \<^verbatim>\<open>None\<close> afterwards, the recorder keeps its entries, and
  the exception reaches the caller unchanged.
  \<^verbatim>\<open>__exit__\<close> runs on both ways out and the exception does reach the caller, but
  \<^verbatim>\<open>__exit__\<close> resets nothing: with recorder 0 in the class attribute when the block
  ends, the attribute still holds recorder 0 afterwards, on the exceptional and on
  the normal exit. And the entries appended before the exception cannot be read
  afterwards: in the program \<^verbatim>\<open>t = LoggingTape()\<close>,
  \<^verbatim>\<open>with t: t.add_to_log("a"); raise Exception("boom")\<close>, started at module load, the
  exception reaches the caller and \<^verbatim>\<open>t.print_logs()\<close> then raises TypeError.
\<close>

theorem exit_keeps_slot:
  "with_stmt 0 (\<lambda>tape. raise_py (Exception ''boom''))
     \<lparr>logs_of = [0 \<mapsto> Ellipsis], next_ref = 1, logging_tape = TapeRef 0, stdout = []\<rparr> =
   (Inl (Exception ''boom''),
     \<lparr>logs_of = [0 \<mapsto> Ellipsis], next_ref = 1, logging_tape = TapeRef 0, stdout = []\<rparr>)
   \<and> with_stmt 0 (\<lambda>tape. return_py ())
     \<lparr>logs_of = [0 \<mapsto> Ellipsis], next_ref = 1, logging_tape = TapeRef 0, stdout = []\<rparr> =
   (Inr PyNone,
     \<lparr>logs_of = [0 \<mapsto> Ellipsis], next_ref = 1, logging_tape = TapeRef 0, stdout = []\<rparr>)
   \<and> bind_py LoggingTape_new (\<lambda>t.
         with_stmt t (\<lambda>tape. bind_py (LoggingTape_add_to_log t ''a'')
                                 (\<lambda>_. raise_py (Exception ''boom'')))) init_state =
   (Inl (Exception ''boom''),
     \<lparr>logs_of = [0 \<mapsto> Ellipsis], next_ref = 1, logging_tape = PyNone, stdout = []\<rparr>)
   \<and> LoggingTape_print_logs 0
       \<lparr>logs_of = [0 \<mapsto> Ellipsis], next_ref = 1, logging_tape = PyNone, stdout = []\<rparr> =
   (Inl (TypeError '''ellipsis' object is not iterable''),
     \<lparr>logs_of = [0 \<mapsto> Ellipsis], next_ref = 1, logging_tape = PyNone, stdout = []\<rparr>)"
  by (simp add: with_stmt_raise with_stmt_return LoggingTape_new_eq LoggingTape_add_to_log_def
      LoggingTape_print_logs_def init_state_def py_defs)

text \<open>
  C3. \<^verbatim>\<open>__enter__\<close> starts an empty entry sequence, stores the recorder in
  \<^verbatim>\<open>Logger.logging_tape\<close> and returns the recorder.
  The code does none of the three: on a fresh recorder it returns \<^verbatim>\<open>None\<close>, the class
  attribute is still \<^verbatim>\<open>None\<close>, and \<^verbatim>\<open>logs\<close> is still the \<^verbatim>\<open>Ellipsis\<close> object.
\<close>

theorem enter_does_nothing:
  "bind_py LoggingTape_new LoggingTape_enter init_state =
     (Inr PyNone,
      \<lparr>logs_of = [0 \<mapsto> Ellipsis], next_ref = 1, logging_tape = PyNone, stdout = []\<rparr>)"
  by (simp add: LoggingTape_new_eq LoggingTape_enter_def init_state_def py_defs)

text \<open>\<^verbatim>\<open>Car.travel\<close> with no recorder in the class attribute raises the AttributeError of
  \<^verbatim>\<open>None.add_to_log\<close>, for every distance, and changes nothing.\<close>

lemma Car_travel_slot_empty:
  "logging_tape s = PyNone \<Longrightarrow>
   Car_travel distance s = (Inl (AttributeError ''NoneType'' ''add_to_log''), s)"
  by (simp add: Car_travel_def call_add_to_log_def py_defs)

text \<open>
  C4. An append attempted while \<^verbatim>\<open>Logger.logging_tape\<close> holds no recorder is an error,
  and the entry is never dropped silently.
  The code drops it silently. At module load the class attribute is \<^verbatim>\<open>None\<close>; then
  \<^verbatim>\<open>t = LoggingTape()\<close> and \<^verbatim>\<open>t.add_to_log("Hi!")\<close> return \<^verbatim>\<open>None\<close> with no error, and
  the entry is stored nowhere: \<^verbatim>\<open>logs\<close> is still the \<^verbatim>\<open>Ellipsis\<close> object and nothing is
  printed. The same holds for every recorder, entry and state: \<^verbatim>\<open>add_to_log\<close> returns
  \<^verbatim>\<open>None\<close> and leaves the state as it was.
\<close>

theorem add_to_log_outside_window:
  "logging_tape init_state = PyNone
   \<and> bind_py LoggingTape_new (\<lambda>t. LoggingTape_add_to_log t ''Hi!'') init_state =
       (Inr PyNone,
        \<lparr>logs_of = [0 \<mapsto> Ellipsis], next_ref = 1, logging_tape = PyNone, stdout = []\<rparr>)
   \<and> LoggingTape_add_to_log t new_log s = (Inr PyNone, s)"
  by (simp add: LoggingTape_new_eq LoggingTape_add_to_log_def init_state_def py_defs)

text \<open>
  C5. Opening a second window while one is open fails with an error and leaves the first
  recorder in the class attribute.
  As stated this is false: with recorder 0 published and its window open, the nested
  window on recorder 1 opens and closes without any error; and so does, started at
  module load, \<^verbatim>\<open>with LoggingTape() as a:\<close> around \<^verbatim>\<open>with LoggingTape() as b: pass\<close>.
\<close>

theorem double_open_counterexample:
  "with_stmt 0 (\<lambda>t1. with_stmt 1 (\<lambda>t2. return_py ()))
     \<lparr>logs_of = [0 \<mapsto> Ellipsis, 1 \<mapsto> Ellipsis], next_ref = 2,
      logging_tape = TapeRef 0, stdout = []\<rparr> =
   (Inr PyNone,
     \<lparr>logs_of = [0 \<mapsto> Ellipsis, 1 \<mapsto> Ellipsis], next_ref = 2,
      logging_tape = TapeRef 0, stdout = []\<rparr>)
   \<and> fst (bind_py LoggingTape_new (\<lambda>m1. with_stmt m1 (\<lambda>a.
             bind_py LoggingTape_new (\<lambda>m2. with_stmt m2 (\<lambda>b. return_py ()))))
           init_state) = Inr PyNone"
  by (simp add: with_stmt_def LoggingTape_enter_def LoggingTape_exit_def LoggingTape_new_eq
      init_state_def py_defs)

text \<open>
  C5, as amended. Opening a second window while one is open does not fail: in every
  state, and for every two recorders, the second \<^verbatim>\<open>__enter__\<close> raises no error, and a
  window nested in another raises an exception exactly when its body does.
\<close>

theorem second_window_opens:
  "\<not> isl (fst (LoggingTape_enter r2 (snd (LoggingTape_enter r1 s))))
   \<and> isl (fst (with_stmt r1 (\<lambda>t1. with_stmt r2 (\<lambda>t2. body)) s)) = isl (fst (body s))"
proof
  show "\<not> isl (fst (LoggingTape_enter r2 (snd (LoggingTape_enter r1 s))))"
    by (simp add: LoggingTape_enter_def return_py_def)
next
  obtain r s' where body: "body s = (r, s')"
    by (cases "body s")
  show "isl (fst (with_stmt r1 (\<lambda>t1. with_stmt r2 (\<lambda>t2. body)) s)) = isl (fst (body s))"
  proof (cases r)
    case (Inl e)
    with body have "with_stmt r2 (\<lambda>t2. body) s = (Inl e, s')"
      by (simp add: with_stmt_raise)
    then have "with_stmt r1 (\<lambda>t1. with_stmt r2 (\<lambda>t2. body)) s = (Inl e, s')"
      by (simp add: with_stmt_raise)
    with body Inl show ?thesis
      by simp
  next
    case (Inr x)
    with body have "with_stmt r2 (\<lambda>t2. body) s = (Inr PyNone, s')"
      by (simp add: with_stmt_return)
    then have "with_stmt r1 (\<lambda>t1. with_stmt r2 (\<lambda>t2. body)) s = (Inr PyNone, s')"
      by (simp add: with_stmt_return)
    with body Inr show ?thesis
      by simp
  qed
qed

text \<open>
  C6. \<^verbatim>\<open>car.travel(5)\<close> inside an open window appends \<^verbatim>\<open>Traveled Distance 5\<close>, which the
  dump of that window shows.
  The code does not do this: in the local test (lines 106 to 109) the window has not
  stored its recorder in the class attribute, so \<^verbatim>\<open>car.travel(5)\<close> raises
  AttributeError inside the window, and nothing is printed.
\<close>

theorem car_test_raises:
  "car_test init_state =
     (Inl (AttributeError ''NoneType'' ''add_to_log''),
      \<lparr>logs_of = [0 \<mapsto> Ellipsis], next_ref = 1, logging_tape = PyNone, stdout = []\<rparr>)"
  by (simp add: car_test_def with_stmt_def LoggingTape_new_eq Car_travel_def
      LoggingTape_enter_def LoggingTape_exit_def call_add_to_log_def init_state_def py_defs)

text \<open>
  C7. \<^verbatim>\<open>print_logs\<close> on a recorder without appends prints no line and raises no error.
  The code raises: a recorder fresh from \<^verbatim>\<open>LoggingTape()\<close>, in any state of the
  program, has \<^verbatim>\<open>logs = ...\<close>, and the \<^verbatim>\<open>for\<close> statement of \<^verbatim>\<open>print_logs\<close> raises
  TypeError on it.
\<close>

theorem fresh_print_logs_raises:
  "bind_py LoggingTape_new LoggingTape_print_logs s =
     (Inl (TypeError '''ellipsis' object is not iterable''),
      s\<lparr>next_ref := Suc (next_ref s), logs_of := (logs_of s)(next_ref s \<mapsto> Ellipsis)\<rparr>)"
  by (simp add: LoggingTape_new_eq LoggingTape_print_logs_def py_defs)

text \<open>
  C10. The constructor of \<^verbatim>\<open>Square\<close> takes no argument beyond \<^verbatim>\<open>self\<close>: every call
  \<^verbatim>\<open>Square(name, length)\<close> raises TypeError and produces no square, and so does the
  local test of lines 89 to 91, whatever the state.
\<close>

theorem Square_init_two_args:
  "Square_init [name, len] s =
     (Inl (TypeError ''Square.__init__() takes 1 positional argument but 3 were given''), s)
   \<and> square_test s =
     (Inl (TypeError ''Square.__init__() takes 1 positional argument but 3 were given''), s)"
  by (simp add: square_test_def Square_init_def py_defs str_nat.simps)

section \<open>Properties of the setup script\<close>

lemmas step_defs = then_py_def bind_py_def return_py_def raise_py_def print_colored_def

subsection \<open>The version check\<close>

lemma check_python_version_result:
  assumes v: "sys_version_info P = (major, minor, micro)"
  shows "fst (check_python_version P w) = Inr (major = 3 \<and> (minor = 11 \<or> minor = 12))"
  using v by (auto simp: check_python_version_def tuple_less_def step_defs)

lemma check_python_version_below:
  assumes v: "sys_version_info P = (major, minor, micro)"
    and lo: "major < 3 \<or> (major = 3 \<and> minor < 11)"
  shows "check_python_version P w =
     (Inr False, w\<lparr>out := out w @
        [Colors_CYAN @ ''Found Python '' @ str_int major @ ''.'' @ str_int minor @ ''.''
           @ str_int micro @ Colors_NC,
         Colors_RED @ ''Error: Python 3.11+ required, found '' @ str_int major @ ''.''
           @ str_int minor @ Colors_NC,
         Colors_YELLOW @ ''Install Python 3.11 from: https://python.org/downloads/''
           @ Colors_NC]\<rparr>)"
  using v lo by (auto simp: check_python_version_def tuple_less_def step_defs)

lemma check_python_version_above:
  assumes v: "sys_version_info P = (major, minor, micro)"
    and hi: "3 < major \<or> (major = 3 \<and> 12 < minor)"
  shows "check_python_version P w =
     (Inr False, w\<lparr>out := out w @
        [Colors_CYAN @ ''Found Python '' @ str_int major @ ''.'' @ str_int minor @ ''.''
           @ str_int micro @ Colors_NC,
         Colors_RED @ ''Error: Python '' @ str_int major @ ''.'' @ str_int minor
           @ '' not supported by TensorFlow 2.15'' @ Colors_NC,
         Colors_YELLOW @ ''Please install Python 3.11 or 3.12:'' @ Colors_NC,
         Colors_YELLOW @ ''macOS: brew install python@3.11'' @ Colors_NC,
         Colors_YELLOW @ ''Windows/Linux: https://python.org/downloads/release/python-3119/''
           @ Colors_NC]\<rparr>)"
  using v hi by (auto simp: check_python_version_def tuple_less_def step_defs)

lemma check_python_version_prints_error:
  assumes v: "sys_version_info P = (major, minor, micro)"
    and out_of_range: "major < 3 \<or> (major = 3 \<and> minor < 11) \<or> 3 < major \<or> (major = 3 \<and> 12 < minor)"
  shows "\<exists>text. out (snd (check_python_version P w)) ! Suc (length (out w)) =
           Colors_RED @ ''Error: Python '' @ text @ Colors_NC"
proof (cases "major < 3 \<or> (major = 3 \<and> minor < 11)")
  case True
  have "out (snd (check_python_version P w)) ! Suc (length (out w)) =
          Colors_RED @ ''Error: Python '' @ (''3.11+ required, found '' @ str_int major @ ''.''
             @ str_int minor) @ Colors_NC"
    by (simp add: check_python_version_below [OF v True] nth_append)
  then show ?thesis by blast
next
  case False
  with out_of_range have hi: "3 < major \<or> (major = 3 \<and> 12 < minor)" by auto
  have "out (snd (check_python_version P w)) ! Suc (length (out w)) =
          Colors_RED @ ''Error: Python '' @ (str_int major @ ''.'' @ str_int minor
             @ '' not supported by TensorFlow 2.15'') @ Colors_NC"
    by (simp add: check_python_version_above [OF v hi] nth_append)
  then show ?thesis by blast
qed

lemma main_rejected:
  assumes v: "sys_version_info P = (major, minor, micro)"
    and bad: "\<not> (major = 3 \<and> (minor = 11 \<or> minor = 12))"
  shows "fst (main P w) = Inl (SystemExit 1)"
proof -
  from bad consider
    (lo) "major < 3 \<or> (major = 3 \<and> minor < 11)" | (hi) "3 < major \<or> (major = 3 \<and> 12 < minor)"
    by linarith
  then show ?thesis
  proof cases
    case lo
    show ?thesis
      by (simp add: main_def sys_exit_def step_defs check_python_version_below [OF v lo])
  next
    case hi
    show ?thesis
      by (simp add: main_def sys_exit_def step_defs check_python_version_above [OF v hi])
  qed
qed

lemma script_exit: "fst (main P w) = Inl (SystemExit code) \<Longrightarrow> fst (script P w) = code"
  by (auto simp: script_def split: prod.splits sum.splits exn.splits)

text \<open>
  C8. \<^verbatim>\<open>check_python_version\<close> returns \<^verbatim>\<open>True\<close> exactly when the interpreter's
  (major, minor) is (3, 11) or (3, 12). For every version below 3.11 or above 3.12 it
  returns \<^verbatim>\<open>False\<close>, the second line it prints is a red line starting with
  \<^verbatim>\<open>Error: Python\<close>, \<^verbatim>\<open>main\<close> ends in \<^verbatim>\<open>sys.exit(1)\<close>, and the exit status of the script
  is 1.
\<close>

theorem check_python_version_exact:
  assumes v: "sys_version_info P = (major, minor, micro)"
  shows "fst (check_python_version P w) = Inr (major = 3 \<and> (minor = 11 \<or> minor = 12))
    \<and> (major < 3 \<or> (major = 3 \<and> minor < 11) \<or> 3 < major \<or> (major = 3 \<and> 12 < minor) \<longrightarrow>
         fst (check_python_version P w) = Inr False
       \<and> (\<exists>text. out (snd (check_python_version P w)) ! Suc (length (out w)) =
                   Colors_RED @ ''Error: Python '' @ text @ Colors_NC)
       \<and> fst (main P w) = Inl (SystemExit 1)
       \<and> fst (script P w) = 1)"
proof (intro conjI impI)
  show "fst (check_python_version P w) = Inr (major = 3 \<and> (minor = 11 \<or> minor = 12))"
    by (rule check_python_version_result [OF v])
next
  assume r: "major < 3 \<or> (major = 3 \<and> minor < 11) \<or> 3 < major \<or> (major = 3 \<and> 12 < minor)"
  then have bad: "\<not> (major = 3 \<and> (minor = 11 \<or> minor = 12))" by auto
  show "fst (check_python_version P w) = Inr False"
    using check_python_version_result [OF v, of w] bad by simp
  show "\<exists>text. out (snd (check_python_version P w)) ! Suc (length (out w)) =
           Colors_RED @ ''Error: Python '' @ text @ Colors_NC"
    by (rule check_python_version_prints_error [OF v r])
  show "fst (main P w) = Inl (SystemExit 1)"
    by (rule main_rejected [OF v bad])
  then show "fst (script P w) = 1"
    by (rule script_exit)
qed

theorem check_python_version_exact_witness:
  "sys_version_info (linux_box (3, 10, 4) is_str) = (3, 10, 4)
   \<and> fst (check_python_version (linux_box (3, 10, 4) is_str) empty_world) = Inr False
   \<and> fst (main (linux_box (3, 10, 4) is_str) empty_world) = Inl (SystemExit 1)
   \<and> fst (script (linux_box (3, 10, 4) is_str) empty_world) = 1
   \<and> sys_version_info (linux_box (3, 13, 0) is_str) = (3, 13, 0)
   \<and> fst (script (linux_box (3, 13, 0) is_str) empty_world) = 1
   \<and> fst (check_python_version (linux_box (3, 12, 1) is_str) empty_world) = Inr True"
  using check_python_version_exact [of "linux_box (3, 10, 4) is_str" 3 10 4 empty_world]
    check_python_version_exact [of "linux_box (3, 13, 0) is_str" 3 13 0 empty_world]
    check_python_version_exact [of "linux_box (3, 12, 1) is_str" 3 12 1 empty_world]
  by (simp add: linux_box_def)

subsection \<open>Commands that fail\<close>

text \<open>\<^verbatim>\<open>CalledProcessError\<close> never leaves \<^verbatim>\<open>run_command\<close>.\<close>

lemma run_command_catches:
  assumes "subprocess_run P c (is_str c) check capture_output w = (Inl (CalledProcessError c' rc), w')"
  shows "run_command P c check capture_output w =
     (Inr None, w'\<lparr>out := out w' @
        [Colors_RED @ ''Command failed: '' @ fmt_cmd P c @ Colors_NC,
         Colors_RED @ ''Error: '' @ str_exn P (CalledProcessError c' rc) @ Colors_NC]\<rparr>)"
  using assms by (cases "is_str c") (simp_all add: run_command_def step_defs)

lemma run_command_failed:
  assumes "subprocess_spawn P c (is_str c) capture_output (env w) = (Inr rc, v)" and "rc \<noteq> 0"
  shows "run_command P c True capture_output w =
     (Inr None, w\<lparr>env := v, out := out w @
        [Colors_RED @ ''Command failed: '' @ fmt_cmd P c @ Colors_NC,
         Colors_RED @ ''Error: '' @ str_exn P (CalledProcessError c rc) @ Colors_NC]\<rparr>)"
  using assms by (cases "is_str c") (simp_all add: run_command_def subprocess_run_def step_defs)

lemma run_command_returned:
  assumes "subprocess_spawn P c (is_str c) capture_output (env w) = (Inr rc, v)"
    and "check \<longrightarrow> rc = 0"
  shows "run_command P c check capture_output w =
           (Inr (Some \<lparr>returncode = rc\<rparr>), w\<lparr>env := v\<rparr>)"
  using assms by (cases "is_str c") (auto simp add: run_command_def subprocess_run_def step_defs)

text \<open>An exception of the machine other than \<^verbatim>\<open>CalledProcessError\<close> is not caught.\<close>

lemma run_command_propagates:
  assumes "subprocess_spawn P c (is_str c) capture_output (env w) = (Inl e, v)"
    and "e = SystemExit code \<or> e = KeyboardInterrupt \<or> e = OtherException text"
  shows "run_command P c check capture_output w = (Inl e, w\<lparr>env := v\<rparr>)"
  using assms
  by (cases "is_str c") (auto simp add: run_command_def subprocess_run_def step_defs)

text \<open>\<^verbatim>\<open>create_virtual_environment\<close> reaches the \<^verbatim>\<open>venv\<close> command on two ways: the
  directory of the environment does not exist, or it exists and the answer to the
  question is \<^verbatim>\<open>y\<close>, and it has been removed.\<close>

lemma create_virtual_environment_failed:
  assumes fresh: "\<not> Path_exists P (path_div (Path ''..'') ENV_NAME) (env w)"
    and run: "subprocess_spawn P
                (Argv [sys_executable P, ''-m'', ''venv'',
                       str_path P (path_div (Path ''..'') ENV_NAME)])
                False False (env w) = (Inr rc, v)"
    and rc: "rc \<noteq> 0"
  shows "fst (create_virtual_environment P w) = Inr None"
proof -
  let ?c = "Argv [sys_executable P, ''-m'', ''venv'',
                  str_path P (path_div (Path ''..'') ENV_NAME)]"
  have failed: "run_command P ?c True False w' =
      (Inr None, w'\<lparr>env := v, out := out w' @
        [Colors_RED @ ''Command failed: '' @ fmt_cmd P ?c @ Colors_NC,
         Colors_RED @ ''Error: '' @ str_exn P (CalledProcessError ?c rc) @ Colors_NC]\<rparr>)"
    if "env w' = env w" for w'
    using run_command_failed [of P ?c False w' rc v] run rc that by simp
  show ?thesis
    using fresh
    by (simp add: create_virtual_environment_def INSTALL_IN_PARENT_def bind_py_def then_py_def
        return_py_def print_colored_def failed)
qed

lemma create_virtual_environment_recreate_failed:
  assumes present: "Path_exists P (path_div (Path ''..'') ENV_NAME) (env w)"
    and answer: "builtin_input P ''Do you want to recreate it? (y/N): '' (env w) = (Inr line, va)"
    and yes: "lower (strip line) = ''y''"
    and removed: "shutil_rmtree P (path_div (Path ''..'') ENV_NAME) va = (Inr (), vb)"
    and run: "subprocess_spawn P
                (Argv [sys_executable P, ''-m'', ''venv'',
                       str_path P (path_div (Path ''..'') ENV_NAME)])
                False False vb = (Inr rc, v)"
    and rc: "rc \<noteq> 0"
  shows "fst (create_virtual_environment P w) = Inr None"
proof -
  let ?c = "Argv [sys_executable P, ''-m'', ''venv'',
                  str_path P (path_div (Path ''..'') ENV_NAME)]"
  have failed: "run_command P ?c True False w' =
      (Inr None, w'\<lparr>env := v, out := out w' @
        [Colors_RED @ ''Command failed: '' @ fmt_cmd P ?c @ Colors_NC,
         Colors_RED @ ''Error: '' @ str_exn P (CalledProcessError ?c rc) @ Colors_NC]\<rparr>)"
    if "env w' = vb" for w'
    using run_command_failed [of P ?c False w' rc v] run rc that by simp
  show ?thesis
    using present answer yes removed
    by (simp add: create_virtual_environment_def INSTALL_IN_PARENT_def bind_py_def then_py_def
        return_py_def print_colored_def failed)
qed

text \<open>When the answer is anything else, no command is run and the existing environment
  is the result.\<close>

lemma create_virtual_environment_kept:
  assumes present: "Path_exists P (path_div (Path ''..'') ENV_NAME) (env w)"
    and answer: "builtin_input P ''Do you want to recreate it? (y/N): '' (env w) = (Inr line, va)"
    and no: "lower (strip line) \<noteq> ''y''"
  shows "fst (create_virtual_environment P w) = Inr (Some (path_div (Path ''..'') ENV_NAME))"
  using present answer no
  by (simp add: create_virtual_environment_def INSTALL_IN_PARENT_def bind_py_def then_py_def
      return_py_def print_colored_def)

lemma install_requirements_upgrade_failed:
  assumes req: "Path_exists P (Path REQUIREMENTS_FILE) (env w)"
    and run: "subprocess_spawn P
                (Argv [str_path P (python_exe env_path os_type), ''-m'', ''pip'', ''install'',
                       ''--upgrade'', ''pip'']) False False (env w) = (Inr rc, v)"
    and rc: "rc \<noteq> 0"
  shows "fst (install_requirements P env_path os_type w) = Inr False"
proof -
  let ?c = "Argv [str_path P (python_exe env_path os_type), ''-m'', ''pip'', ''install'',
                  ''--upgrade'', ''pip'']"
  have failed: "run_command P ?c True False w' =
      (Inr None, w'\<lparr>env := v, out := out w' @
        [Colors_RED @ ''Command failed: '' @ fmt_cmd P ?c @ Colors_NC,
         Colors_RED @ ''Error: '' @ str_exn P (CalledProcessError ?c rc) @ Colors_NC]\<rparr>)"
    if "env w' = env w" for w'
    using run_command_failed [of P ?c False w' rc v] run rc that by simp
  show ?thesis
    using req
    by (simp add: install_requirements_def bind_py_def then_py_def return_py_def
        print_colored_def failed [simplified])
qed

text \<open>When the first installation of the requirements fails, the second attempt (with
  \<^verbatim>\<open>--no-cache-dir\<close>) decides.\<close>

lemma install_requirements_retry:
  assumes req: "Path_exists P (Path REQUIREMENTS_FILE) (env w)"
    and run1: "subprocess_spawn P
                (Argv [str_path P (python_exe env_path os_type), ''-m'', ''pip'', ''install'',
                       ''--upgrade'', ''pip'']) False False (env w) = (Inr 0, v1)"
    and run2: "subprocess_spawn P
                (Argv [str_path P (pip_exe env_path os_type), ''install'', ''-r'', REQUIREMENTS_FILE])
                False False v1 = (Inr rc2, v2)"
    and rc2: "rc2 \<noteq> 0"
    and run3: "subprocess_spawn P
                (Argv [str_path P (pip_exe env_path os_type), ''install'', ''--no-cache-dir'', ''-r'',
                       REQUIREMENTS_FILE]) False False v2 = (Inr rc3, v3)"
  shows "fst (install_requirements P env_path os_type w) = Inr (rc3 = 0)"
proof -
  let ?c1 = "Argv [str_path P (python_exe env_path os_type), ''-m'', ''pip'', ''install'',
                  ''--upgrade'', ''pip'']"
  let ?c2 = "Argv [str_path P (pip_exe env_path os_type), ''install'', ''-r'', REQUIREMENTS_FILE]"
  let ?c3 = "Argv [str_path P (pip_exe env_path os_type), ''install'', ''--no-cache-dir'', ''-r'',
                   REQUIREMENTS_FILE]"
  have ok1: "run_command P ?c1 True False w' =
               (Inr (Some \<lparr>returncode = 0\<rparr>), w'\<lparr>env := v1\<rparr>)"
    if "env w' = env w" for w'
    using run_command_returned [of P ?c1 False w' 0 v1 True] run1 that by simp
  have failed2: "run_command P ?c2 True False w' =
      (Inr None, w'\<lparr>env := v2, out := out w' @
        [Colors_RED @ ''Command failed: '' @ fmt_cmd P ?c2 @ Colors_NC,
         Colors_RED @ ''Error: '' @ str_exn P (CalledProcessError ?c2 rc2) @ Colors_NC]\<rparr>)"
    if "env w' = v1" for w'
    using run_command_failed [of P ?c2 False w' rc2 v2] run2 rc2 that by simp
  show ?thesis
  proof (cases "rc3 = 0")
    case True
    have ok3: "run_command P ?c3 True False w' =
                 (Inr (Some \<lparr>returncode = 0\<rparr>), w'\<lparr>env := v3\<rparr>)"
      if "env w' = v2" for w'
      using run_command_returned [of P ?c3 False w' 0 v3 True] run3 True that by simp
    show ?thesis
      using req True
      by (simp add: install_requirements_def bind_py_def then_py_def return_py_def
          print_colored_def ok1 [simplified] failed2 [simplified] ok3 [simplified])
  next
    case False
    have failed3: "run_command P ?c3 True False w' =
        (Inr None, w'\<lparr>env := v3, out := out w' @
          [Colors_RED @ ''Command failed: '' @ fmt_cmd P ?c3 @ Colors_NC,
           Colors_RED @ ''Error: '' @ str_exn P (CalledProcessError ?c3 rc3) @ Colors_NC]\<rparr>)"
      if "env w' = v2" for w'
      using run_command_failed [of P ?c3 False w' rc3 v3] run3 False that by simp
    show ?thesis
      using req False
      by (simp add: install_requirements_def bind_py_def then_py_def return_py_def
          print_colored_def ok1 [simplified] failed2 [simplified] failed3 [simplified])
  qed
qed

lemma setup_jupyter_kernel_failed:
  assumes run: "subprocess_spawn P
                 (Argv [str_path P (python_exe env_path os_type), ''-m'', ''ipykernel'', ''install'',
                        ''--user'', ''--name'', ENV_NAME, ''--display-name'',
                        ''DL-S25 (3.11) - '' @ ENV_NAME]) False False (env w) = (Inr rc, v)"
    and rc: "rc \<noteq> 0"
  shows "fst (setup_jupyter_kernel P env_path os_type w) = Inr False"
proof -
  let ?c = "Argv [str_path P (python_exe env_path os_type), ''-m'', ''ipykernel'', ''install'',
                        ''--user'', ''--name'', ENV_NAME, ''--display-name'',
                        ''DL-S25 (3.11) - '' @ ENV_NAME]"
  have failed: "run_command P ?c True False w' =
      (Inr None, w'\<lparr>env := v, out := out w' @
        [Colors_RED @ ''Command failed: '' @ fmt_cmd P ?c @ Colors_NC,
         Colors_RED @ ''Error: '' @ str_exn P (CalledProcessError ?c rc) @ Colors_NC]\<rparr>)"
    if "env w' = env w" for w'
    using run_command_failed [of P ?c False w' rc v] run rc that by simp
  show ?thesis
    by (simp add: setup_jupyter_kernel_def bind_py_def then_py_def return_py_def
        print_colored_def failed [simplified])
qed

text \<open>The loop of \<^verbatim>\<open>verify_installation\<close> over a list in two pieces: the second piece is
  run only when every import of the first has passed, and from the state they left.\<close>

lemma verify_imports_append:
  "verify_imports P exe (xs @ ys) w =
     (case verify_imports P exe xs w of
        (Inl e, wa) \<Rightarrow> (Inl e, wa)
      | (Inr passed, wa) \<Rightarrow> if passed then verify_imports P exe ys wa else (Inr False, wa))"
proof (induction xs arbitrary: w)
  case Nil
  show ?case
    by (simp add: return_py_def)
next
  case (Cons x xs)
  show ?case
    by (simp add: Cons.IH bind_py_def then_py_def return_py_def print_colored_def
        split: prod.splits sum.splits)
qed

text \<open>The import that fails when it is tried, after the ones before it have passed, ends
  the loop with \<^verbatim>\<open>False\<close>, whatever comes after it in the list.\<close>

lemma verify_imports_stops:
  assumes before: "verify_imports P exe pre w = (Inr True, wa)"
    and run: "subprocess_spawn P
                (Argv [exe, ''-c'', ''import '' @ package @ ''; print(f'' @ apostrophe @ package
                                    @ '' OK'' @ apostrophe @ '')'']) False True (env wa)
              = (Inr rc, v)"
    and rc: "rc \<noteq> 0"
  shows "fst (verify_imports P exe (pre @ package # post) w) = Inr False"
proof -
  let ?c = "Argv [exe, ''-c'', ''import '' @ package @ ''; print(f'' @ apostrophe @ package
                                    @ '' OK'' @ apostrophe @ '')'']"
  have "run_command P ?c True True wa =
      (Inr None, wa\<lparr>env := v, out := out wa @
        [Colors_RED @ ''Command failed: '' @ fmt_cmd P ?c @ Colors_NC,
         Colors_RED @ ''Error: '' @ str_exn P (CalledProcessError ?c rc) @ Colors_NC]\<rparr>)"
    using run_command_failed [of P ?c True wa rc v] run rc by simp
  then have "fst (verify_imports P exe (package # post) wa) = Inr False"
    by (simp add: bind_py_def then_py_def return_py_def print_colored_def)
  with before show ?thesis
    by (simp add: verify_imports_append)
qed

lemma verify_installation_failed:
  assumes packages: "[''numpy'', ''tensorflow'', ''pandas'', ''matplotlib'', ''sklearn'', ''PIL'',
                      ''h5py''] = pre @ package # post"
    and before: "verify_imports P (str_path P (python_exe env_path os_type)) pre
                   (snd (print_colored ''Verifying installation...'' Colors_CYAN w))
                 = (Inr True, wa)"
    and run: "subprocess_spawn P
                (Argv [str_path P (python_exe env_path os_type), ''-c'',
                       ''import '' @ package @ ''; print(f'' @ apostrophe @ package
                       @ '' OK'' @ apostrophe @ '')'']) False True (env wa) = (Inr rc, v)"
    and rc: "rc \<noteq> 0"
  shows "fst (verify_installation P env_path os_type w) = Inr False"
proof -
  have "verify_installation P env_path os_type w =
          verify_imports P (str_path P (python_exe env_path os_type)) (pre @ package # post)
            (snd (print_colored ''Verifying installation...'' Colors_CYAN w))"
    unfolding verify_installation_def packages
    by (simp add: then_py_def bind_py_def print_colored_def)
  then show ?thesis
    using verify_imports_stops [OF before run rc] by simp
qed

text \<open>The loop over the packages never answers \<^verbatim>\<open>True\<close> when the import of one of
  them fails (whatever the state of the machine when it is tried).\<close>

lemma verify_imports_failed:
  assumes fails: "\<And>e. \<exists>rc v. subprocess_spawn P
              (Argv [exe, ''-c'', ''import '' @ package @ ''; print(f'' @ apostrophe @ package
                                    @ '' OK'' @ apostrophe @ '')'']) False True e = (Inr rc, v)
              \<and> rc \<noteq> 0"
    and mem: "package \<in> set packages"
  shows "fst (verify_imports P exe packages w) \<noteq> Inr True"
  using mem
proof (induction packages arbitrary: w)
  case Nil
  then show ?case by simp
next
  case (Cons p rest)
  let ?c = "Argv [exe, ''-c'', ''import '' @ p @ ''; print(f'' @ apostrophe @ p
                                    @ '' OK'' @ apostrophe @ '')'']"
  obtain r w1 where run: "run_command P ?c True True w = (r, w1)"
    by (cases "run_command P ?c True True w")
  show ?case
  proof (cases r)
    case (Inl e)
    with run show ?thesis by (simp add: bind_py_def)
  next
    case (Inr result)
    show ?thesis
    proof (cases "case result of None \<Rightarrow> False | Some x \<Rightarrow> returncode x = 0")
      case False
      with run Inr show ?thesis by (simp add: step_defs)
    next
      case True
      have "p \<noteq> package"
      proof
        assume "p = package"
        from fails [of "env w"] obtain rc v where
          "subprocess_spawn P ?c False True (env w) = (Inr rc, v)" "rc \<noteq> 0"
          unfolding \<open>p = package\<close> by blast
        then have "run_command P ?c True True w =
          (Inr None, w\<lparr>env := v, out := out w @
            [Colors_RED @ ''Command failed: '' @ fmt_cmd P ?c @ Colors_NC,
             Colors_RED @ ''Error: '' @ str_exn P (CalledProcessError ?c rc) @ Colors_NC]\<rparr>)"
          using run_command_failed [of P ?c True w rc v] by simp
        with run Inr True show False by simp
      qed
      with Cons.prems have "package \<in> set rest" by simp
      then have "fst (verify_imports P exe rest w') \<noteq> Inr True" for w'
        by (rule Cons.IH)
      with run Inr True show ?thesis by (simp add: step_defs)
    qed
  qed
qed

lemma verify_installation_not_True:
  assumes "\<And>e. \<exists>rc v. subprocess_spawn P
              (Argv [str_path P (python_exe env_path os_type), ''-c'',
                     ''import '' @ package @ ''; print(f'' @ apostrophe @ package
                     @ '' OK'' @ apostrophe @ '')'']) False True e = (Inr rc, v)
              \<and> rc \<noteq> 0"
    and "package \<in> set [''numpy'', ''tensorflow'', ''pandas'', ''matplotlib'', ''sklearn'',
                           ''PIL'', ''h5py'']"
  shows "fst (verify_installation P env_path os_type w) \<noteq> Inr True"
  using verify_imports_failed [OF assms]
  by (simp add: verify_installation_def then_py_def bind_py_def print_colored_def)

text \<open>With \<^verbatim>\<open>check=True\<close> the result of \<^verbatim>\<open>run_command\<close> tells whether the command ended
  with status 0.\<close>

lemma run_command_exited:
  assumes "subprocess_spawn P c (is_str c) capture_output (env w) = (Inr rc, v)"
  shows "run_command P c True capture_output w =
     (Inr (if rc = 0 then Some \<lparr>returncode = 0\<rparr> else None),
      w\<lparr>env := v, out := out w @
        (if rc = 0 then []
         else [Colors_RED @ ''Command failed: '' @ fmt_cmd P c @ Colors_NC,
               Colors_RED @ ''Error: '' @ str_exn P (CalledProcessError c rc) @ Colors_NC])\<rparr>)"
proof (cases "rc = 0")
  case True
  then show ?thesis
    using run_command_returned [of P c capture_output w rc v True] assms by simp
next
  case False
  then show ?thesis
    using run_command_failed [of P c capture_output w rc v] assms by simp
qed

text \<open>\<^verbatim>\<open>check_system_dependencies\<close> on a machine with \<^verbatim>\<open>apt-get\<close>: whatever the two
  commands end with, the answer is \<^verbatim>\<open>True\<close>.\<close>

lemma check_system_dependencies_apt:
  assumes apt: "shutil_which P ''apt-get'' (env w)"
    and run1: "subprocess_spawn P (Shell ''sudo apt-get update'') True False (env w) = (Inr rc1, v1)"
    and run2: "subprocess_spawn P
                 (Shell (''sudo apt-get install -y ''
                    @ join '' '' [''python3.11'', ''python3.11-venv'', ''python3.11-dev'',
                                  ''libhdf5-dev'', ''pkg-config'', ''build-essential'']))
                 True False v1 = (Inr rc2, v2)"
  shows "fst (check_system_dependencies P ''linux'' w) = Inr True"
proof -
  let ?c1 = "Shell ''sudo apt-get update''"
  let ?c2 = "Shell (''sudo apt-get install -y ''
                    @ join '' '' [''python3.11'', ''python3.11-venv'', ''python3.11-dev'',
                                  ''libhdf5-dev'', ''pkg-config'', ''build-essential''])"
  have e1: "run_command P ?c1 True False w' =
     (Inr (if rc1 = 0 then Some \<lparr>returncode = 0\<rparr> else None),
      w'\<lparr>env := v1, out := out w' @
        (if rc1 = 0 then []
         else [Colors_RED @ ''Command failed: '' @ fmt_cmd P ?c1 @ Colors_NC,
               Colors_RED @ ''Error: '' @ str_exn P (CalledProcessError ?c1 rc1) @ Colors_NC])\<rparr>)"
    if "env w' = env w" for w'
    using run_command_exited [of P ?c1 False w' rc1 v1] run1 that by simp
  have e2: "run_command P ?c2 True False w' =
     (Inr (if rc2 = 0 then Some \<lparr>returncode = 0\<rparr> else None),
      w'\<lparr>env := v2, out := out w' @
        (if rc2 = 0 then []
         else [Colors_RED @ ''Command failed: '' @ fmt_cmd P ?c2 @ Colors_NC,
               Colors_RED @ ''Error: '' @ str_exn P (CalledProcessError ?c2 rc2) @ Colors_NC])\<rparr>)"
    if "env w' = v1" for w'
    using run_command_exited [of P ?c2 False w' rc2 v2] run2 that by simp
  show ?thesis
    using apt
    by (simp add: check_system_dependencies_def bind_py_def then_py_def return_py_def
        print_colored_def e1 [simplified] e2 [simplified])
qed

text \<open>The answer of \<^verbatim>\<open>check_system_dependencies\<close> does not depend on what its commands
  return: whenever it returns, it returns \<^verbatim>\<open>False\<close> on macOS without Homebrew and
  \<^verbatim>\<open>True\<close> everywhere else.\<close>

lemma check_system_dependencies_result:
  assumes "fst (check_system_dependencies P os_type w) = Inr ok"
  shows "ok = (os_type \<noteq> ''mac'' \<or> shutil_which P ''brew'' (env w))"
  using assms
  by (auto simp: check_system_dependencies_def then_py_def bind_py_def return_py_def
      print_colored_def split: if_splits prod.splits sum.splits)

text \<open>
  C9. A command that ends with a status other than 0 under \<^verbatim>\<open>check=True\<close> makes
  \<^verbatim>\<open>run_command\<close> print the failure and return \<^verbatim>\<open>None\<close>, and every caller treats
  \<^verbatim>\<open>None\<close> as the failure of its step.
  As stated this is false for \<^verbatim>\<open>check_system_dependencies\<close>: on a machine where the two
  \<^verbatim>\<open>apt-get\<close> commands fail (and \<^verbatim>\<open>run_command\<close> returns \<^verbatim>\<open>None\<close> for each), it returns
  \<^verbatim>\<open>True\<close>, and the script goes on to the end with exit status 0.
\<close>

theorem ignored_failure_counterexample:
  "fst (run_command (linux_box (3, 11, 4) is_str) (Shell ''sudo apt-get update'') True False
         empty_world) = Inr None
   \<and> fst (check_system_dependencies (linux_box (3, 11, 4) is_str) ''linux'' empty_world) = Inr True
   \<and> fst (script (linux_box (3, 11, 4) is_str) empty_world) = 0"
proof (intro conjI)
  show "fst (run_command (linux_box (3, 11, 4) is_str) (Shell ''sudo apt-get update'') True False
          empty_world) = Inr None"
    by (simp add: run_command_def subprocess_run_def linux_box_def empty_world_def step_defs)
  show "fst (check_system_dependencies (linux_box (3, 11, 4) is_str) ''linux'' empty_world)
          = Inr True"
    by (simp add: check_system_dependencies_def run_command_def subprocess_run_def linux_box_def
        empty_world_def step_defs)
  show "fst (script (linux_box (3, 11, 4) is_str) empty_world) = 0"
    by (simp add: script_def main_def check_python_version_def tuple_less_def get_os_info_def
        lower_def lower_char_def check_system_dependencies_def create_virtual_environment_def
        install_requirements_def setup_jupyter_kernel_def verify_installation_def
        print_next_steps_def sys_exit_def path_div_def Path_def root_of_def str_path_def
        python_exe_def
        pip_exe_def ENV_NAME_def REQUIREMENTS_FILE_def INSTALL_IN_PARENT_def
        run_command_def subprocess_run_def linux_box_def empty_world_def step_defs)
qed

text \<open>
  C9, as amended. A command whose execution raises \<^verbatim>\<open>CalledProcessError\<close> (a status other
  than 0 under \<^verbatim>\<open>check=True\<close>) makes \<^verbatim>\<open>run_command\<close> print two red lines and return
  \<^verbatim>\<open>None\<close>, with no exception for the caller. Four callers take \<^verbatim>\<open>None\<close> for the
  failure of their step:
  \<^item> \<^verbatim>\<open>create_virtual_environment\<close> returns \<^verbatim>\<open>None\<close>, for a new directory and for one
    that was removed to be made again;
  \<^item> \<^verbatim>\<open>install_requirements\<close> returns \<^verbatim>\<open>False\<close> when the upgrade of pip fails, and, when
    the installation of the requirements fails, runs it once more with
    \<^verbatim>\<open>--no-cache-dir\<close> and returns \<^verbatim>\<open>False\<close> if that fails too;
  \<^item> \<^verbatim>\<open>setup_jupyter_kernel\<close> returns \<^verbatim>\<open>False\<close>;
  \<^item> \<^verbatim>\<open>verify_installation\<close> returns \<^verbatim>\<open>False\<close> at the first of the seven packages
    whose import fails.

  \<^verbatim>\<open>check_system_dependencies\<close> does not: its answer is \<^verbatim>\<open>False\<close> on macOS without
  Homebrew and \<^verbatim>\<open>True\<close> otherwise, whatever its commands return; with \<^verbatim>\<open>apt-get\<close> it
  answers \<^verbatim>\<open>True\<close> for every pair of exit statuses of its two commands.
\<close>

theorem failed_command_handling:
  "(subprocess_run P c (is_str c) check capture_output w = (Inl (CalledProcessError cf rcf), wx) \<longrightarrow>
      run_command P c check capture_output w =
        (Inr None, wx\<lparr>out := out wx @
           [Colors_RED @ ''Command failed: '' @ fmt_cmd P c @ Colors_NC,
            Colors_RED @ ''Error: '' @ str_exn P (CalledProcessError cf rcf) @ Colors_NC]\<rparr>))
   \<and> (subprocess_spawn P c (is_str c) capture_output (env w) = (Inr rc, v) \<and> rc \<noteq> 0 \<longrightarrow>
      run_command P c True capture_output w =
        (Inr None, w\<lparr>env := v, out := out w @
           [Colors_RED @ ''Command failed: '' @ fmt_cmd P c @ Colors_NC,
            Colors_RED @ ''Error: '' @ str_exn P (CalledProcessError c rc) @ Colors_NC]\<rparr>))
   \<and> (\<not> Path_exists P (path_div (Path ''..'') ENV_NAME) (env w)
      \<and> subprocess_spawn P
           (Argv [sys_executable P, ''-m'', ''venv'',
                  str_path P (path_div (Path ''..'') ENV_NAME)])
           False False (env w) = (Inr rc, v) \<and> rc \<noteq> 0 \<longrightarrow>
      fst (create_virtual_environment P w) = Inr None)
   \<and> (Path_exists P (path_div (Path ''..'') ENV_NAME) (env w)
      \<and> builtin_input P ''Do you want to recreate it? (y/N): '' (env w) = (Inr line, va)
      \<and> lower (strip line) = ''y''
      \<and> shutil_rmtree P (path_div (Path ''..'') ENV_NAME) va = (Inr (), vb)
      \<and> subprocess_spawn P
           (Argv [sys_executable P, ''-m'', ''venv'',
                  str_path P (path_div (Path ''..'') ENV_NAME)])
           False False vb = (Inr rc, v) \<and> rc \<noteq> 0 \<longrightarrow>
      fst (create_virtual_environment P w) = Inr None)
   \<and> (Path_exists P (Path REQUIREMENTS_FILE) (env w)
      \<and> subprocess_spawn P
           (Argv [str_path P (python_exe env_path os_type), ''-m'', ''pip'', ''install'',
                  ''--upgrade'', ''pip'']) False False (env w) = (Inr rc, v) \<and> rc \<noteq> 0 \<longrightarrow>
      fst (install_requirements P env_path os_type w) = Inr False)
   \<and> (Path_exists P (Path REQUIREMENTS_FILE) (env w)
      \<and> subprocess_spawn P
           (Argv [str_path P (python_exe env_path os_type), ''-m'', ''pip'', ''install'',
                  ''--upgrade'', ''pip'']) False False (env w) = (Inr 0, va)
      \<and> subprocess_spawn P
           (Argv [str_path P (pip_exe env_path os_type), ''install'', ''-r'', REQUIREMENTS_FILE])
           False False va = (Inr rcb, vb) \<and> rcb \<noteq> 0
      \<and> subprocess_spawn P
           (Argv [str_path P (pip_exe env_path os_type), ''install'', ''--no-cache-dir'', ''-r'',
                  REQUIREMENTS_FILE]) False False vb = (Inr rcc, vc) \<longrightarrow>
      fst (install_requirements P env_path os_type w) = Inr (rcc = 0))
   \<and> (subprocess_spawn P
         (Argv [str_path P (python_exe env_path os_type), ''-m'', ''ipykernel'', ''install'',
                ''--user'', ''--name'', ENV_NAME, ''--display-name'',
                ''DL-S25 (3.11) - '' @ ENV_NAME])
         False False (env w) = (Inr rc, v) \<and> rc \<noteq> 0 \<longrightarrow>
      fst (setup_jupyter_kernel P env_path os_type w) = Inr False)
   \<and> ([''numpy'', ''tensorflow'', ''pandas'', ''matplotlib'', ''sklearn'', ''PIL'', ''h5py'']
        = pre @ package # post
      \<and> verify_imports P (str_path P (python_exe env_path os_type)) pre
           (snd (print_colored ''Verifying installation...'' Colors_CYAN w)) = (Inr True, wa)
      \<and> subprocess_spawn P
           (Argv [str_path P (python_exe env_path os_type), ''-c'',
                  ''import '' @ package @ ''; print(f'' @ apostrophe @ package @ '' OK''
                  @ apostrophe @ '')'']) False True (env wa) = (Inr rc, v) \<and> rc \<noteq> 0 \<longrightarrow>
      fst (verify_installation P env_path os_type w) = Inr False)
   \<and> (fst (check_system_dependencies P os_type w) = Inr ok \<longrightarrow>
      ok = (os_type \<noteq> ''mac'' \<or> shutil_which P ''brew'' (env w)))
   \<and> (shutil_which P ''apt-get'' (env w)
      \<and> subprocess_spawn P (Shell ''sudo apt-get update'') True False (env w) = (Inr rc, va)
      \<and> subprocess_spawn P
           (Shell (''sudo apt-get install -y ''
              @ join '' '' [''python3.11'', ''python3.11-venv'', ''python3.11-dev'',
                            ''libhdf5-dev'', ''pkg-config'', ''build-essential'']))
           True False va = (Inr rcb, vb) \<longrightarrow>
      fst (check_system_dependencies P ''linux'' w) = Inr True)"
proof (intro conjI impI; (elim conjE)?)
  show "run_command P c check capture_output w =
        (Inr None, wx\<lparr>out := out wx @
           [Colors_RED @ ''Command failed: '' @ fmt_cmd P c @ Colors_NC,
            Colors_RED @ ''Error: '' @ str_exn P (CalledProcessError cf rcf) @ Colors_NC]\<rparr>)"
    if "subprocess_run P c (is_str c) check capture_output w = (Inl (CalledProcessError cf rcf), wx)"
    using that by (rule run_command_catches)
  show "run_command P c True capture_output w =
        (Inr None, w\<lparr>env := v, out := out w @
           [Colors_RED @ ''Command failed: '' @ fmt_cmd P c @ Colors_NC,
            Colors_RED @ ''Error: '' @ str_exn P (CalledProcessError c rc) @ Colors_NC]\<rparr>)"
    if "subprocess_spawn P c (is_str c) capture_output (env w) = (Inr rc, v)" "rc \<noteq> 0"
    using that by (rule run_command_failed)
  show "fst (create_virtual_environment P w) = Inr None"
    if "\<not> Path_exists P (path_div (Path ''..'') ENV_NAME) (env w)"
      "subprocess_spawn P
         (Argv [sys_executable P, ''-m'', ''venv'', str_path P (path_div (Path ''..'') ENV_NAME)])
         False False (env w) = (Inr rc, v)" "rc \<noteq> 0"
    using that by (rule create_virtual_environment_failed)
  show "fst (create_virtual_environment P w) = Inr None"
    if "Path_exists P (path_div (Path ''..'') ENV_NAME) (env w)"
      "builtin_input P ''Do you want to recreate it? (y/N): '' (env w) = (Inr line, va)"
      "lower (strip line) = ''y''"
      "shutil_rmtree P (path_div (Path ''..'') ENV_NAME) va = (Inr (), vb)"
      "subprocess_spawn P
         (Argv [sys_executable P, ''-m'', ''venv'', str_path P (path_div (Path ''..'') ENV_NAME)])
         False False vb = (Inr rc, v)" "rc \<noteq> 0"
    using that by (rule create_virtual_environment_recreate_failed)
  show "fst (install_requirements P env_path os_type w) = Inr False"
    if "Path_exists P (Path REQUIREMENTS_FILE) (env w)"
      "subprocess_spawn P
         (Argv [str_path P (python_exe env_path os_type), ''-m'', ''pip'', ''install'',
                ''--upgrade'', ''pip'']) False False (env w) = (Inr rc, v)" "rc \<noteq> 0"
    using that by (rule install_requirements_upgrade_failed)
  show "fst (install_requirements P env_path os_type w) = Inr (rcc = 0)"
    if "Path_exists P (Path REQUIREMENTS_FILE) (env w)"
      "subprocess_spawn P
         (Argv [str_path P (python_exe env_path os_type), ''-m'', ''pip'', ''install'',
                ''--upgrade'', ''pip'']) False False (env w) = (Inr 0, va)"
      "subprocess_spawn P
         (Argv [str_path P (pip_exe env_path os_type), ''install'', ''-r'', REQUIREMENTS_FILE])
         False False va = (Inr rcb, vb)" "rcb \<noteq> 0"
      "subprocess_spawn P
         (Argv [str_path P (pip_exe env_path os_type), ''install'', ''--no-cache-dir'', ''-r'',
                REQUIREMENTS_FILE]) False False vb = (Inr rcc, vc)"
    using that by (rule install_requirements_retry)
  show "fst (setup_jupyter_kernel P env_path os_type w) = Inr False"
    if "subprocess_spawn P
         (Argv [str_path P (python_exe env_path os_type), ''-m'', ''ipykernel'', ''install'',
                ''--user'', ''--name'', ENV_NAME, ''--display-name'',
                ''DL-S25 (3.11) - '' @ ENV_NAME])
         False False (env w) = (Inr rc, v)" "rc \<noteq> 0"
    using that by (rule setup_jupyter_kernel_failed)
  show "fst (verify_installation P env_path os_type w) = Inr False"
    if "[''numpy'', ''tensorflow'', ''pandas'', ''matplotlib'', ''sklearn'', ''PIL'', ''h5py'']
          = pre @ package # post"
      "verify_imports P (str_path P (python_exe env_path os_type)) pre
         (snd (print_colored ''Verifying installation...'' Colors_CYAN w)) = (Inr True, wa)"
      "subprocess_spawn P
         (Argv [str_path P (python_exe env_path os_type), ''-c'',
                ''import '' @ package @ ''; print(f'' @ apostrophe @ package @ '' OK''
                @ apostrophe @ '')'']) False True (env wa) = (Inr rc, v)" "rc \<noteq> 0"
    using that by (rule verify_installation_failed)
  show "ok = (os_type \<noteq> ''mac'' \<or> shutil_which P ''brew'' (env w))"
    if "fst (check_system_dependencies P os_type w) = Inr ok"
    using that by (rule check_system_dependencies_result)
  show "fst (check_system_dependencies P ''linux'' w) = Inr True"
    if "shutil_which P ''apt-get'' (env w)"
      "subprocess_spawn P (Shell ''sudo apt-get update'') True False (env w) = (Inr rc, va)"
      "subprocess_spawn P
         (Shell (''sudo apt-get install -y ''
            @ join '' '' [''python3.11'', ''python3.11-venv'', ''python3.11-dev'',
                          ''libhdf5-dev'', ''pkg-config'', ''build-essential'']))
         True False va = (Inr rcb, vb)"
    using that by (rule check_system_dependencies_apt)
qed

text \<open>
  The theorem at work: a machine where every command fails; one where the directory of the
  environment exists and the answer is \<^verbatim>\<open>Y\<close> between spaces; one where only the two
  installations of the requirements fail; one where only the import of \<^verbatim>\<open>tensorflow\<close>
  fails, after that of \<^verbatim>\<open>numpy\<close> has passed; and one where only the commands run through
  the shell fail.
\<close>

theorem failed_command_handling_witness:
  "fst (run_command (linux_box (3, 11, 4) (\<lambda>c. True)) (Shell ''sudo apt-get update'') True False
         empty_world) = Inr None
   \<and> fst (create_virtual_environment (linux_box (3, 11, 4) (\<lambda>c. True)) empty_world) = Inr None
   \<and> fst (install_requirements (linux_box (3, 11, 4) (\<lambda>c. True))
           (path_div (Path ''..'') ENV_NAME) ''linux'' empty_world) = Inr False
   \<and> fst (setup_jupyter_kernel (linux_box (3, 11, 4) (\<lambda>c. True))
           (path_div (Path ''..'') ENV_NAME) ''linux'' empty_world) = Inr False
   \<and> fst (check_system_dependencies (linux_box (3, 11, 4) (\<lambda>c. True)) ''linux'' empty_world)
       = Inr True
   \<and> fst (create_virtual_environment
           ((linux_box (3, 11, 4) (\<lambda>c. True))
              \<lparr>Path_exists := \<lambda>p w. True, builtin_input := \<lambda>prompt w. (Inr '' Y '', w)\<rparr>)
           empty_world) = Inr None
   \<and> fst (install_requirements (linux_box (3, 11, 4) is_pip_install)
           (path_div (Path ''..'') ENV_NAME) ''linux'' empty_world) = Inr False
   \<and> fst (verify_installation
           (linux_box (3, 11, 4)
              (\<lambda>c. c = Argv [''../csci1470/bin/python'', ''-c'',
                               ''import tensorflow; print(f'' @ apostrophe @ ''tensorflow OK''
                               @ apostrophe @ '')'']))
           (path_div (Path ''..'') ENV_NAME) ''linux'' empty_world) = Inr False
   \<and> fst (check_system_dependencies (linux_box (3, 11, 4) is_str) ''linux'' empty_world)
       = Inr True"
proof -
  let ?all = "linux_box (3, 11, 4) (\<lambda>c. True)"
  let ?again = "?all\<lparr>Path_exists := \<lambda>p w. True, builtin_input := \<lambda>prompt w. (Inr '' Y '', w)\<rparr>"
  let ?pip = "linux_box (3, 11, 4) is_pip_install"
  let ?tf = "linux_box (3, 11, 4)
              (\<lambda>c. c = Argv [''../csci1470/bin/python'', ''-c'',
                               ''import tensorflow; print(f'' @ apostrophe @ ''tensorflow OK''
                               @ apostrophe @ '')''])"
  let ?sh = "linux_box (3, 11, 4) is_str"
  let ?env = "path_div (Path ''..'') ENV_NAME"
  let ?wv = "snd (print_colored ''Verifying installation...'' Colors_CYAN empty_world)"
  note defs = linux_box_def empty_world_def path_div_def Path_def root_of_def str_path_def
    python_exe_def pip_exe_def ENV_NAME_def REQUIREMENTS_FILE_def
  have yes: "lower (strip '' Y '') = ''y''"
    by (simp add: strip_def lstrip_with.simps drop_space_def whitespace_def lower_def
        lower_char_def)
  have numpy: "verify_imports ?tf (str_path ?tf (python_exe ?env ''linux'')) [''numpy''] ?wv =
      (Inr True, snd (verify_imports ?tf (str_path ?tf (python_exe ?env ''linux'')) [''numpy''] ?wv))"
    by (simp add: defs run_command_def subprocess_run_def apostrophe_def step_defs)
  have shell: "fst (check_system_dependencies ?sh ''linux'' empty_world) = Inr True"
    by (simp add: check_system_dependencies_def run_command_def subprocess_run_def defs step_defs)
  have a: "fst (run_command ?all (Shell ''sudo apt-get update'') True False empty_world) = Inr None
    \<and> fst (create_virtual_environment ?all empty_world) = Inr None
    \<and> fst (install_requirements ?all ?env ''linux'' empty_world) = Inr False
    \<and> fst (setup_jupyter_kernel ?all ?env ''linux'' empty_world) = Inr False
    \<and> fst (check_system_dependencies ?all ''linux'' empty_world) = Inr True"
    using failed_command_handling
      [where P = ?all and c = "Shell ''sudo apt-get update''" and check = True
         and capture_output = False and w = empty_world and rc = 1 and v = "()"
         and cf = "Shell ''sudo apt-get update''" and rcf = 1 and wx = empty_world
         and env_path = ?env and os_type = "''linux''" and va = "()" and rcb = 1 and vb = "()"]
    by (simp add: defs subprocess_run_def)
  have b: "fst (create_virtual_environment ?again empty_world) = Inr None"
    using failed_command_handling
      [where P = ?again and w = empty_world and line = "'' Y ''" and va = "()" and vb = "()"
         and rc = 1 and v = "()"] yes
    by (simp add: defs)
  have c: "fst (install_requirements ?pip ?env ''linux'' empty_world) = Inr False"
    using failed_command_handling
      [where P = ?pip and w = empty_world and env_path = ?env and os_type = "''linux''"
         and va = "()" and rcb = 1 and vb = "()" and rcc = 1 and vc = "()"]
    by (simp add: defs)
  have d: "fst (verify_installation ?tf ?env ''linux'' empty_world) = Inr False"
    using failed_command_handling
      [where P = ?tf and w = empty_world and env_path = ?env and os_type = "''linux''"
         and pre = "[''numpy'']" and package = "''tensorflow''"
         and post = "[''pandas'', ''matplotlib'', ''sklearn'', ''PIL'', ''h5py'']"
         and wa = "snd (verify_imports ?tf (str_path ?tf (python_exe ?env ''linux'')) [''numpy'']
                     ?wv)"
         and rc = 1 and v = "()"] numpy
    by (simp add: defs apostrophe_def)
  have e: "fst (check_system_dependencies ?sh ''linux'' empty_world) = Inr True"
    using failed_command_handling
      [where P = ?sh and w = empty_world and os_type = "''linux''" and ok = True] shell
    by simp
  from a b c d e show ?thesis
    by simp
qed

end
